theory Spec2Isabelle
  imports Complex_Main
begin

section \<open>JavaScript values, strings and errors\<close>

text \<open>
  The two source files are \<^verbatim>\<open>src/modules/jws-3.3.js\<close> (JWS/JWT signing and
  verification) and \<^verbatim>\<open>src/globals/asn1x509-1.0.js\<close> (X.509 certificate and CRL
  construction). JavaScript strings are modelled as \<^typ>\<open>string\<close>, a \<^verbatim>\<open>throw\<close> as the
  left injection of a sum, \<^verbatim>\<open>undefined\<close> as \<^term>\<open>None\<close>.

  A thrown string keeps the text of the source. \<open>TypeError\<close> and \<open>ReferenceError\<close> are the
  exceptions of the JavaScript runtime (a property read on \<^verbatim>\<open>null\<close>, a call of something
  that is not a function, an assignment to an undeclared name in strict mode).
  \<open>External\<close> is an exception raised inside a collaborator that is not part of the two files
  (base64 decoding, key parsing, the signature engine, the ASN.1 primitives).
\<close>

datatype error =
    Throw string
  | TypeError
  | ReferenceError
  | External string

text \<open>
  A JavaScript number is an IEEE 754 double: a finite double is written as the real number
  it denotes (the two zeros, which no operation used here tells apart, are both \<open>Num 0\<close>),
  next to \<^verbatim>\<open>NaN\<close> and the two infinities. The sum of two finite doubles is the exact sum
  rounded to a double; the rounding is a parameter \<open>rd\<close> of the operations below (it gives
  an infinity when the exact result is out of range).
\<close>

datatype number = Num real | NaN | PosInfinity | NegInfinity

text \<open>\<^verbatim>\<open>x + y\<close> on two numbers.\<close>

fun js_add :: "(real \<Rightarrow> number) \<Rightarrow> number \<Rightarrow> number \<Rightarrow> number" where
  "js_add rd (Num x) (Num y) = rd (x + y)"
| "js_add rd NaN y = NaN"
| "js_add rd x NaN = NaN"
| "js_add rd PosInfinity NegInfinity = NaN"
| "js_add rd NegInfinity PosInfinity = NaN"
| "js_add rd PosInfinity y = PosInfinity"
| "js_add rd NegInfinity y = NegInfinity"
| "js_add rd x PosInfinity = PosInfinity"
| "js_add rd x NegInfinity = NegInfinity"

text \<open>\<^verbatim>\<open>x - y\<close> on two numbers is \<^verbatim>\<open>x + (-y)\<close>, and negation is exact.\<close>

fun js_negate :: "number \<Rightarrow> number" where
  "js_negate (Num x) = Num (- x)"
| "js_negate NaN = NaN"
| "js_negate PosInfinity = NegInfinity"
| "js_negate NegInfinity = PosInfinity"

definition js_sub :: "(real \<Rightarrow> number) \<Rightarrow> number \<Rightarrow> number \<Rightarrow> number" where
  "js_sub rd x y = js_add rd x (js_negate y)"

text \<open>\<^verbatim>\<open>x < y\<close> on two numbers: false as soon as one of them is \<^verbatim>\<open>NaN\<close>.\<close>

fun js_less :: "number \<Rightarrow> number \<Rightarrow> bool" where
  "js_less (Num x) (Num y) = (x < y)"
| "js_less NaN y = False"
| "js_less x NaN = False"
| "js_less NegInfinity NegInfinity = False"
| "js_less NegInfinity y = True"
| "js_less x NegInfinity = False"
| "js_less PosInfinity y = False"
| "js_less x PosInfinity = True"

text \<open>
  Values produced by \<^verbatim>\<open>JSON.parse\<close> and values a caller stores in the \<^verbatim>\<open>acceptField\<close>
  dictionary.
\<close>

datatype json =
    JNull
  | JBool bool
  | JNum number
  | JStr string
  | JArr "json list"
  | JObj "(string \<times> json) list"

type_synonym Dictionary = "(string \<times> json) list"

text \<open>The backslash character (it cannot be written inside a string literal).\<close>

definition bslash :: char where
  "bslash = CHR 0x5C"

text \<open>\<^verbatim>\<open>s.split(c)\<close> for a separator of one character: never the empty array.\<close>

fun js_split :: "char \<Rightarrow> string \<Rightarrow> string list" where
  "js_split c [] = [[]]"
| "js_split c (x # xs) =
     (if x = c then [] # js_split c xs
      else (case js_split c xs of
              [] \<Rightarrow> [[x]]
            | y # ys \<Rightarrow> (x # y) # ys))"

text \<open>\<^verbatim>\<open>a.join(sep)\<close> on an array of strings.\<close>

fun js_join :: "string \<Rightarrow> string list \<Rightarrow> string" where
  "js_join sep [] = []"
| "js_join sep [x] = x"
| "js_join sep (x # y # ys) = x @ sep @ js_join sep (y # ys)"

text \<open>\<^verbatim>\<open>s.indexOf(sub) != -1\<close>: \<open>sub\<close> occurs in \<open>s\<close> as a contiguous substring.\<close>

fun js_includes :: "string \<Rightarrow> string \<Rightarrow> bool" where
  "js_includes [] sub = (sub = [])"
| "js_includes (c # s) sub = (take (length sub) (c # s) = sub \<or> js_includes s sub)"

text \<open>\<^verbatim>\<open>a[i]\<close> on an array: \<^verbatim>\<open>undefined\<close> beyond the end.\<close>

definition js_nth :: "'a list \<Rightarrow> nat \<Rightarrow> 'a option" where
  "js_nth a i = (if i < length a then Some (a ! i) else None)"

text \<open>
  \<^verbatim>\<open>s.replace(c, r)\<close> with a one-character string pattern, and
  \<^verbatim>\<open>s.replace(/c/, r)\<close> with a regular expression without the \<^verbatim>\<open>g\<close> flag: only the first
  occurrence is replaced.
\<close>

fun replace_first :: "char \<Rightarrow> string \<Rightarrow> string \<Rightarrow> string" where
  "replace_first c r [] = []"
| "replace_first c r (x # xs) = (if x = c then r @ xs else x # replace_first c r xs)"

text \<open>
  \<^verbatim>\<open>s.replace(/\\,/g, ",")\<close>: every occurrence of backslash-comma, scanning from the left,
  becomes a comma.
\<close>

fun replace_all_bs_comma :: "string \<Rightarrow> string" where
  "replace_all_bs_comma (x # y # zs) =
     (if x = bslash \<and> y = CHR '','' then CHR '','' # replace_all_bs_comma zs
      else x # replace_all_bs_comma (y # zs))"
| "replace_all_bs_comma [x] = [x]"
| "replace_all_bs_comma [] = []"

text \<open>Decimal digits of a natural number, as \<^verbatim>\<open>String(n)\<close> prints an integer.\<close>

definition digit_char :: "nat \<Rightarrow> char" where
  "digit_char d = ''0123456789'' ! d"

fun nat_to_dec :: "nat \<Rightarrow> string" where
  "nat_to_dec n =
     (if n < 10 then [digit_char n]
      else nat_to_dec (n div 10) @ [digit_char (n mod 10)])"

definition int_to_dec :: "int \<Rightarrow> string" where
  "int_to_dec i = (if i < 0 then CHR ''-'' # nat_to_dec (nat (- i)) else nat_to_dec (nat i))"

text \<open>
  \<^verbatim>\<open>String(v)\<close>, the conversion that \<^verbatim>\<open>Array.prototype.join\<close>,
  \<^verbatim>\<open>String.prototype.indexOf\<close> and the concatenation with a string apply to a value.
  Inside \<^verbatim>\<open>join\<close> an element that is \<^verbatim>\<open>null\<close> prints as the empty string. How the
  runtime prints a number (decimal digits, a fraction, an exponent) is the parameter
  \<open>n2s\<close>.
\<close>

fun js_to_string :: "(number \<Rightarrow> string) \<Rightarrow> json \<Rightarrow> string" where
  "js_to_string n2s JNull = ''null''"
| "js_to_string n2s (JBool b) = (if b then ''true'' else ''false'')"
| "js_to_string n2s (JNum n) = n2s n"
| "js_to_string n2s (JStr s) = s"
| "js_to_string n2s (JArr xs) =
     js_join '','' (map (\<lambda>x. if x = JNull then [] else js_to_string n2s x) xs)"
| "js_to_string n2s (JObj d) = ''[object Object]''"

definition js_join_elem :: "(number \<Rightarrow> string) \<Rightarrow> json \<Rightarrow> string" where
  "js_join_elem n2s x = (if x = JNull then [] else js_to_string n2s x)"

text \<open>\<^verbatim>\<open>typeof v\<close>; an absent property is \<^verbatim>\<open>undefined\<close>.\<close>

fun js_typeof :: "json option \<Rightarrow> string" where
  "js_typeof None = ''undefined''"
| "js_typeof (Some JNull) = ''object''"
| "js_typeof (Some (JBool b)) = ''boolean''"
| "js_typeof (Some (JNum n)) = ''number''"
| "js_typeof (Some (JStr s)) = ''string''"
| "js_typeof (Some (JArr xs)) = ''object''"
| "js_typeof (Some (JObj d)) = ''object''"

text \<open>
  \<^verbatim>\<open>x === y\<close> between a value of a freshly parsed token and a value supplied by the
  caller: primitives compare by value (\<^verbatim>\<open>NaN\<close> is not equal to itself), and two distinct
  objects are never identical.
\<close>

fun strict_equals :: "json option \<Rightarrow> json option \<Rightarrow> bool" where
  "strict_equals None None = True"
| "strict_equals (Some JNull) (Some JNull) = True"
| "strict_equals (Some (JBool a)) (Some (JBool b)) = (a = b)"
| "strict_equals (Some (JNum a)) (Some (JNum b)) = (a = b \<and> a \<noteq> NaN)"
| "strict_equals (Some (JStr a)) (Some (JStr b)) = (a = b)"
| "strict_equals x y = False"

section \<open>JWS and JWT verification (jws-3.3.js)\<close>

text \<open>
  The \<^verbatim>\<open>key\<close> argument of \<^verbatim>\<open>verify\<close> and \<^verbatim>\<open>verifyJWT\<close>: absent, \<^verbatim>\<open>null\<close>, a string
  (a PEM text or a password), an \<^verbatim>\<open>RSAKeyEx\<close> object, an \<^verbatim>\<open>ECDSA\<close> object, or any other
  object (for instance a \<^verbatim>\<open>{utf8: ...}\<close> password dictionary). The string carried by an
  object names it.
\<close>

datatype key =
    KUndefined
  | KNull
  | KString string
  | KRSAKeyEx string
  | KECDSA string
  | KObject string

text \<open>
  The collaborators imported by jws-3.3.js, which are not part of the file:
  \<^verbatim>\<open>b64utohex\<close> and \<^verbatim>\<open>b64utoutf8\<close> (base64x), \<^verbatim>\<open>JSON.parse\<close> (\<open>None\<close> when it throws),
  \<^verbatim>\<open>getKey\<close> (keyutil), \<^verbatim>\<open>Mac\<close> and \<^verbatim>\<open>Signature\<close> (crypto), \<^verbatim>\<open>ECDSA.concatSigToASN1Sig\<close>,
  and the clock read by \<^verbatim>\<open>getNow\<close>; and, of the runtime, the conversion of a number to
  a string, the conversion of a string to a number, and the rounding of an exact real
  result to a double. Each is a parameter.
  \<open>Mac_doFinal alg pass input\<close> stands for
  \<^verbatim>\<open>new Mac({alg, pass}); updateString(input); doFinal()\<close>, and
  \<open>Signature_verify alg key input sig\<close> for
  \<^verbatim>\<open>new Signature({alg}); init(key); updateString(input); verify(sig)\<close>.
\<close>

record jws_env =
  b64utohex :: "string option \<Rightarrow> error + string"
  b64utoutf8 :: "string option \<Rightarrow> error + string"
  JSON_parse :: "string \<Rightarrow> json option"
  getKey :: "string \<Rightarrow> error + key"
  Mac_doFinal :: "string \<Rightarrow> key \<Rightarrow> string \<Rightarrow> error + string"
  concatSigToASN1Sig :: "string \<Rightarrow> error + string"
  Signature_verify :: "string \<Rightarrow> key \<Rightarrow> string \<Rightarrow> string \<Rightarrow> error + bool"
  getNow :: number
  NumberToString :: "number \<Rightarrow> string"
  StringToNumber :: "string \<Rightarrow> number"
  double_of_real :: "real \<Rightarrow> number"

text \<open>
  Modelled from the spec: \<^verbatim>\<open>isDictionary\<close> is imported from \<^verbatim>\<open>include/type.js\<close>, which
  is not under src/. The spec requires that the header "must decode to a JSON object", and
  the source documents \<^verbatim>\<open>readSafeJSONString\<close> as returning a JSON object or \<^verbatim>\<open>null\<close>.
\<close>

fun isDictionary :: "json \<Rightarrow> bool" where
  "isDictionary (JObj d) = True"
| "isDictionary v = False"

text \<open>\<^verbatim>\<open>readSafeJSONString\<close> (lines 758-767): \<open>None\<close> is the \<^verbatim>\<open>null\<close> it returns.\<close>

definition readSafeJSONString :: "jws_env \<Rightarrow> string \<Rightarrow> Dictionary option" where
  "readSafeJSONString env s =
     (case JSON_parse env s of
        None \<Rightarrow> None
      | Some o' \<Rightarrow>
          (if \<not> isDictionary o' then None
           else (case o' of JObj d \<Rightarrow> Some d | _ \<Rightarrow> None)))"

text \<open>
  \<^verbatim>\<open>inArray(item, a)\<close> (lines 704-706) is \<^verbatim>\<open>a.indexOf(item) !== -1\<close>. On an array
  \<^verbatim>\<open>indexOf\<close> searches with strict equality, on a string it searches for the text of the
  item; no other JSON value has an \<^verbatim>\<open>indexOf\<close> method.
\<close>

fun inArray :: "jws_env \<Rightarrow> json option \<Rightarrow> json \<Rightarrow> error + bool" where
  "inArray env item (JArr xs) = Inr (\<exists>x \<in> set xs. strict_equals (Some x) item)"
| "inArray env item (JStr s) =
     Inr (js_includes s (case item of None \<Rightarrow> ''undefined''
                                   | Some v \<Rightarrow> js_to_string (NumberToString env) v))"
| "inArray env item a = Inl TypeError"

text \<open>
  \<^verbatim>\<open>includedArray(a1, a2)\<close> (lines 685-690): the loop over \<^verbatim>\<open>i < a1.length\<close>, leaving at
  the first item that is not in \<open>a2\<close>. The argument of the loop below is the list of the
  items \<^verbatim>\<open>a1[i]\<close>.
\<close>

fun includedArray_loop :: "jws_env \<Rightarrow> json option list \<Rightarrow> json \<Rightarrow> error + bool" where
  "includedArray_loop env [] a2 = Inr True"
| "includedArray_loop env (x # xs) a2 =
     (case inArray env x a2 of
        Inl e \<Rightarrow> Inl e
      | Inr b \<Rightarrow> if \<not> b then Inr False else includedArray_loop env xs a2)"

text \<open>
  ToNumber, the conversion that \<^verbatim>\<open><\<close> and \<^verbatim>\<open>-\<close> apply to an operand: an array and an
  object are first converted to a string.
\<close>

fun js_to_number :: "jws_env \<Rightarrow> json option \<Rightarrow> number" where
  "js_to_number env None = NaN"
| "js_to_number env (Some JNull) = Num 0"
| "js_to_number env (Some (JBool b)) = Num (if b then 1 else 0)"
| "js_to_number env (Some (JNum n)) = n"
| "js_to_number env (Some (JStr s)) = StringToNumber env s"
| "js_to_number env (Some (JArr xs)) =
     StringToNumber env (js_to_string (NumberToString env) (JArr xs))"
| "js_to_number env (Some (JObj d)) = StringToNumber env ''[object Object]''"

text \<open>
  How many of the indices 0, 1, 2, ... pass the loop test \<^verbatim>\<open>i < len\<close>, counted up to
  \<open>cap\<close>: none when \<open>len\<close> is \<^verbatim>\<open>NaN\<close> or not positive.
\<close>

definition loop_count :: "number \<Rightarrow> nat \<Rightarrow> nat" where
  "loop_count len cap =
     (case len of
        Num x \<Rightarrow> min (nat \<lceil>x\<rceil>) cap
      | PosInfinity \<Rightarrow> cap
      | _ \<Rightarrow> 0)"

text \<open>
  \<open>includedArray\<close> is private to the file and called only in step 7 of \<^verbatim>\<open>verifyJWT\<close>,
  with an \<open>a2\<close> whose \<^verbatim>\<open>typeof\<close> is \<^verbatim>\<open>"object"\<close>. When \<open>a1\<close> is an object that is not an
  array, the bound of the loop is its \<^verbatim>\<open>length\<close> property converted to a number, and the
  item at an index is the property with the decimal digits of the index as its name. An
  index that the object does not have gives \<^verbatim>\<open>undefined\<close>, which is in no such \<open>a2\<close>, so
  the loop ends there at the latest; an object with the properties \<open>d\<close> lacks one of the
  indices \<open>0, ..., length d\<close>, so no more than \<open>length d + 1\<close> items are looked at.
\<close>

fun includedArray :: "jws_env \<Rightarrow> json \<Rightarrow> json \<Rightarrow> error + bool" where
  "includedArray env (JArr xs) a2 = includedArray_loop env (map Some xs) a2"
| "includedArray env (JObj d) a2 =
     includedArray_loop env
       (map (\<lambda>i. map_of d (nat_to_dec i))
            [0 ..< loop_count (js_to_number env (map_of d ''length'')) (length d + 1)])
       a2"
| "includedArray env (JStr s) a2 = includedArray_loop env (map (\<lambda>c. Some (JStr [c])) s) a2"
| "includedArray env JNull a2 = Inl TypeError"
| "includedArray env a1 a2 = Inr True"

text \<open>
  The table \<^verbatim>\<open>jwsalg2sigalg\<close> (lines 711-725). It is an object literal, so a lookup
  \<^verbatim>\<open>jwsalg2sigalg[alg]\<close> also finds the properties every object inherits from
  \<^verbatim>\<open>Object.prototype\<close>; such a value is a function or an object, not a string.
\<close>

definition jwsalg2sigalg :: "(string \<times> string) list" where
  "jwsalg2sigalg =
     [(''HS256'', ''HmacSHA256''),
      (''HS384'', ''HmacSHA384''),
      (''HS512'', ''HmacSHA512''),
      (''RS256'', ''SHA256withRSA''),
      (''RS384'', ''SHA384withRSA''),
      (''RS512'', ''SHA512withRSA''),
      (''ES256'', ''SHA256withECDSA''),
      (''ES384'', ''SHA384withECDSA''),
      (''PS256'', ''SHA256withRSAandMGF1''),
      (''PS384'', ''SHA384withRSAandMGF1''),
      (''PS512'', ''SHA512withRSAandMGF1''),
      (''none'', ''none'')]"

definition Object_prototype_names :: "string list" where
  "Object_prototype_names =
     [''constructor'', ''hasOwnProperty'', ''isPrototypeOf'', ''propertyIsEnumerable'',
      ''toLocaleString'', ''toString'', ''valueOf'', ''__proto__'',
      ''__defineGetter__'', ''__defineSetter__'', ''__lookupGetter__'', ''__lookupSetter__'']"

datatype table_entry = Undefined | SigAlg string | Inherited

definition jwsalg2sigalg_get :: "string \<Rightarrow> table_entry" where
  "jwsalg2sigalg_get alg =
     (case map_of jwsalg2sigalg alg of
        Some sigAlg \<Rightarrow> SigAlg sigAlg
      | None \<Rightarrow> if alg \<in> set Object_prototype_names then Inherited else Undefined)"

definition is_RSAKeyEx :: "key \<Rightarrow> bool" where
  "is_RSAKeyEx k = (case k of KRSAKeyEx n \<Rightarrow> True | _ \<Rightarrow> False)"

definition is_ECDSA :: "key \<Rightarrow> bool" where
  "is_ECDSA k = (case k of KECDSA n \<Rightarrow> True | _ \<Rightarrow> False)"

text \<open>
  Step 5 of \<^verbatim>\<open>verify\<close> (lines 421-450): the dispatch on the signature algorithm.
\<close>

definition verify_dispatch ::
  "jws_env \<Rightarrow> string \<Rightarrow> key \<Rightarrow> string \<Rightarrow> string \<Rightarrow> error + bool" where
  "verify_dispatch env sigAlg key uSignatureInput hSig =
     (if sigAlg = ''none'' then Inl (Throw ''not supported'')
      else if take 4 sigAlg = ''Hmac'' then
        (if key = KUndefined then Inl (Throw ''hexadecimal key shall be specified for HMAC'')
         else (case Mac_doFinal env sigAlg key uSignatureInput of
                 Inl e \<Rightarrow> Inl e
               | Inr hSig2 \<Rightarrow> Inr (hSig = hSig2)))
      else if js_includes sigAlg ''withECDSA'' then
        (case concatSigToASN1Sig env hSig of
           Inl ex \<Rightarrow> Inr False
         | Inr hASN1Sig \<Rightarrow> Signature_verify env sigAlg key uSignatureInput hASN1Sig)
      else Signature_verify env sigAlg key uSignatureInput hSig)"

text \<open>
  Steps 2 to 5 of \<^verbatim>\<open>verify\<close> (lines 371-450), once the header algorithm is known to be
  the string \<open>alg\<close>.
\<close>

definition verify_alg ::
  "jws_env \<Rightarrow> string \<Rightarrow> key \<Rightarrow> json option \<Rightarrow> string \<Rightarrow> string \<Rightarrow> error + bool" where
  "verify_alg env alg key acceptAlgs uSignatureInput hSig =
     (let algType = take 2 alg;
          rejected =
            (case acceptAlgs of
               Some (JArr xs) \<Rightarrow>
                 xs \<noteq> [] \<and>
                 \<not> js_includes ('':'' @ js_join '':'' (map (js_join_elem (NumberToString env)) xs) @ '':'')
                                ('':'' @ alg @ '':'')
             | _ \<Rightarrow> False)
      in if rejected then Inl (Throw (''algorithm '' @ [CHR 0x27] @ alg @ [CHR 0x27] @ '' not accepted in the list''))
         else if alg \<noteq> ''none'' \<and> key = KNull then Inl (Throw ''key shall be specified to verify.'')
         else
           (case (case key of
                    KString s \<Rightarrow> if js_includes s ''-----BEGIN '' then getKey env s else Inr key
                  | _ \<Rightarrow> Inr key) of
              Inl e \<Rightarrow> Inl e
            | Inr key' \<Rightarrow>
                if (algType = ''RS'' \<or> algType = ''PS'') \<and> \<not> is_RSAKeyEx key'
                then Inl (Throw ''key shall be a RSAKeyEx obj for RS* and PS* algs'')
                else if algType = ''ES'' \<and> \<not> is_ECDSA key'
                then Inl (Throw ''key shall be a ECDSA obj for ES* algs'')
                else
                  (case jwsalg2sigalg_get alg of
                     Undefined \<Rightarrow> Inl (Throw (''unsupported alg name: '' @ alg))
                   | Inherited \<Rightarrow> Inl TypeError
                   | SigAlg sigAlg \<Rightarrow> verify_dispatch env sigAlg key' uSignatureInput hSig)))"

text \<open>
  \<^verbatim>\<open>verify(sJWS, key, acceptAlgs)\<close> (lines 351-451). A header algorithm that is not a
  string has no \<^verbatim>\<open>substr\<close> method.
\<close>

definition verify :: "jws_env \<Rightarrow> string \<Rightarrow> key \<Rightarrow> json option \<Rightarrow> error + bool" where
  "verify env sJWS key acceptAlgs =
     (let a = js_split (CHR ''.'') sJWS
      in if length a \<noteq> 3 then Inr False
         else
           (let uHeader = a ! 0;
                uPayload = a ! 1;
                uSignatureInput = uHeader @ ''.'' @ uPayload
            in case b64utohex env (Some (a ! 2)) of
                 Inl e \<Rightarrow> Inl e
               | Inr hSig \<Rightarrow>
                   (case b64utoutf8 env (Some (a ! 0)) of
                      Inl e \<Rightarrow> Inl e
                    | Inr sHead \<Rightarrow>
                        (case readSafeJSONString env sHead of
                           None \<Rightarrow> Inl TypeError
                         | Some pHeader \<Rightarrow>
                             (case map_of pHeader ''alg'' of
                                None \<Rightarrow> Inl (Throw ''algorithm not specified in header'')
                              | Some (JStr alg) \<Rightarrow>
                                  verify_alg env alg key acceptAlgs uSignatureInput hSig
                              | Some v \<Rightarrow> Inl TypeError)))))"

text \<open>
  The \<^verbatim>\<open>acceptField\<close> argument of \<^verbatim>\<open>verifyJWT\<close> is a dictionary owned by the caller.
  \<^verbatim>\<open>verifyJWT\<close> assigns to it, so the model returns it next to the result.
\<close>

type_synonym AcceptField = "string \<Rightarrow> json option"

text \<open>
  The checks of \<^verbatim>\<open>verifyJWT\<close> each either leave the function (returning a boolean or
  throwing) or fall through to the next statement: \<open>None\<close> is falling through.

  Step 4 (lines 608-612): the algorithm check.
\<close>

definition alg_check ::
  "jws_env \<Rightarrow> Dictionary option \<Rightarrow> AcceptField option \<Rightarrow> (error + bool) option" where
  "alg_check env pHeader acceptField =
     (case pHeader of
        None \<Rightarrow> Some (Inl TypeError)
      | Some h \<Rightarrow>
          (case map_of h ''alg'' of
             None \<Rightarrow> Some (Inr False)
           | Some alg \<Rightarrow>
               (case acceptField of
                  None \<Rightarrow> Some (Inl TypeError)
                | Some af \<Rightarrow>
                    (case af ''alg'' of
                       None \<Rightarrow> Some (Inl (Throw ''acceptField.alg shall be specified''))
                     | Some algs \<Rightarrow>
                         (case inArray env (Some alg) algs of
                            Inl e \<Rightarrow> Some (Inl e)
                          | Inr b \<Rightarrow> if \<not> b then Some (Inr False) else None)))))"

text \<open>Steps 5 and 6 (lines 614-622): the issuer and the subject check, for the claim \<open>k\<close>.\<close>

definition claim_check ::
  "jws_env \<Rightarrow> string \<Rightarrow> Dictionary \<Rightarrow> AcceptField \<Rightarrow> (error + bool) option" where
  "claim_check env k pPayload af =
     (case map_of pPayload k of
        None \<Rightarrow> None
      | Some v \<Rightarrow>
          (if js_typeof (af k) = ''object'' then
             (case af k of
                None \<Rightarrow> None
              | Some a \<Rightarrow>
                  (case inArray env (Some v) a of
                     Inl e \<Rightarrow> Some (Inl e)
                   | Inr b \<Rightarrow> if \<not> b then Some (Inr False) else None))
           else None))"

text \<open>Step 7 (lines 624-633): the audience check.\<close>

definition aud_check :: "jws_env \<Rightarrow> Dictionary \<Rightarrow> AcceptField \<Rightarrow> (error + bool) option" where
  "aud_check env pPayload af =
     (case map_of pPayload ''aud'' of
        None \<Rightarrow> None
      | Some v \<Rightarrow>
          (if js_typeof (af ''aud'') = ''object'' then
             (case af ''aud'' of
                None \<Rightarrow> None
              | Some a \<Rightarrow>
                  (if js_typeof (Some v) = ''string'' then
                     (case inArray env (Some v) a of
                        Inl e \<Rightarrow> Some (Inl e)
                      | Inr b \<Rightarrow> if \<not> b then Some (Inr False) else None)
                   else if js_typeof (Some v) = ''object'' then
                     (case includedArray env v a of
                        Inl e \<Rightarrow> Some (Inl e)
                      | Inr b \<Rightarrow> if \<not> b then Some (Inr False) else None)
                   else None))
           else None))"

text \<open>
  Step 8 (lines 635-644): the verification time is \<^verbatim>\<open>acceptField.verifyAt\<close> when that is
  a number and the clock otherwise; \<^verbatim>\<open>acceptField.gracePeriod\<close> is overwritten with 0
  unless it is a number.
\<close>

definition verification_time :: "jws_env \<Rightarrow> AcceptField \<Rightarrow> number" where
  "verification_time env af =
     (case af ''verifyAt'' of
        Some (JNum t) \<Rightarrow> t
      | _ \<Rightarrow> getNow env)"

definition set_default_gracePeriod :: "AcceptField \<Rightarrow> AcceptField" where
  "set_default_gracePeriod af =
     (if af ''gracePeriod'' = None \<or> js_typeof (af ''gracePeriod'') \<noteq> ''number''
      then af(''gracePeriod'' \<mapsto> JNum (Num 0))
      else af)"

text \<open>
  The two comparisons of the time checks, on a numeric claim and the entry
  \<^verbatim>\<open>acceptField['gracePeriod']\<close> as it is stored. In \<^verbatim>\<open>e + g < now\<close> the \<^verbatim>\<open>+\<close> is a
  concatenation when \<open>g\<close> is a string or converts to one (an array, an object), and the
  comparison with the number \<open>now\<close> converts that text to a number; otherwise \<open>g\<close> is
  converted to a number and added. In \<^verbatim>\<open>now < v - g\<close> the \<^verbatim>\<open>-\<close> converts \<open>g\<close> to a number.
\<close>

definition js_plus_less :: "jws_env \<Rightarrow> number \<Rightarrow> json option \<Rightarrow> number \<Rightarrow> bool" where
  "js_plus_less env e g now =
     js_less
       (case g of
          Some (JStr s) \<Rightarrow> StringToNumber env (NumberToString env e @ s)
        | Some (JArr xs) \<Rightarrow>
            StringToNumber env (NumberToString env e @ js_to_string (NumberToString env) (JArr xs))
        | Some (JObj d) \<Rightarrow> StringToNumber env (NumberToString env e @ ''[object Object]'')
        | _ \<Rightarrow> js_add (double_of_real env) e (js_to_number env g))
       now"

definition js_less_minus :: "jws_env \<Rightarrow> number \<Rightarrow> number \<Rightarrow> json option \<Rightarrow> bool" where
  "js_less_minus env now v g =
     js_less now (js_sub (double_of_real env) v (js_to_number env g))"

text \<open>Step 8.1 (lines 646-649): the expiry check.\<close>

definition exp_check ::
  "jws_env \<Rightarrow> Dictionary \<Rightarrow> AcceptField \<Rightarrow> number \<Rightarrow> (error + bool) option" where
  "exp_check env pPayload af now =
     (case map_of pPayload ''exp'' of
        Some (JNum e) \<Rightarrow>
          if js_plus_less env e (af ''gracePeriod'') now then Some (Inr False) else None
      | _ \<Rightarrow> None)"

text \<open>
  Steps 8.2 and 8.3 (lines 651-659): the not-before and the issued-at check, for the
  claim \<open>k\<close>.
\<close>

definition notbefore_check ::
  "jws_env \<Rightarrow> string \<Rightarrow> Dictionary \<Rightarrow> AcceptField \<Rightarrow> number \<Rightarrow> (error + bool) option" where
  "notbefore_check env k pPayload af now =
     (case map_of pPayload k of
        Some (JNum v) \<Rightarrow>
          if js_less_minus env now v (af ''gracePeriod'') then Some (Inr False) else None
      | _ \<Rightarrow> None)"

text \<open>Step 9 (lines 661-664): the token identifier check.\<close>

definition jti_check :: "Dictionary \<Rightarrow> AcceptField \<Rightarrow> (error + bool) option" where
  "jti_check pPayload af =
     (if map_of pPayload ''jti'' \<noteq> None \<and> af ''jti'' \<noteq> None then
        (if \<not> strict_equals (map_of pPayload ''jti'') (af ''jti'') then Some (Inr False) else None)
      else None)"

text \<open>Steps 8 to 11 (lines 635-670), on the decoded payload.\<close>

definition verifyJWT_time ::
  "jws_env \<Rightarrow> string \<Rightarrow> key \<Rightarrow> Dictionary \<Rightarrow> AcceptField \<Rightarrow> (error + bool) \<times> AcceptField option" where
  "verifyJWT_time env sJWT key pPayload af =
     (let now = verification_time env af;
          af' = set_default_gracePeriod af
      in case exp_check env pPayload af' now of
           Some r \<Rightarrow> (r, Some af')
         | None \<Rightarrow>
       (case notbefore_check env ''nbf'' pPayload af' now of
           Some r \<Rightarrow> (r, Some af')
         | None \<Rightarrow>
       (case notbefore_check env ''iat'' pPayload af' now of
           Some r \<Rightarrow> (r, Some af')
         | None \<Rightarrow>
       (case jti_check pPayload af' of
           Some r \<Rightarrow> (r, Some af')
         | None \<Rightarrow>
       (case verify env sJWT key (af' ''alg'') of
           Inl e \<Rightarrow> (Inl e, Some af')
         | Inr b \<Rightarrow> if \<not> b then (Inr False, Some af') else (Inr True, Some af'))))))"

text \<open>
  Steps 4 to 11 (lines 608-670), on the decoded header and payload. A payload that did not
  decode to an object is \<^verbatim>\<open>null\<close>, and the first read of one of its properties, in step 5,
  is a TypeError.
\<close>

definition verifyJWT_checks ::
  "jws_env \<Rightarrow> string \<Rightarrow> key \<Rightarrow> Dictionary option \<Rightarrow> Dictionary option \<Rightarrow> AcceptField option
   \<Rightarrow> (error + bool) \<times> AcceptField option" where
  "verifyJWT_checks env sJWT key pHeader pPayload acceptField =
     (case alg_check env pHeader acceptField of
        Some r \<Rightarrow> (r, acceptField)
      | None \<Rightarrow>
          (case acceptField of
             None \<Rightarrow> (Inl TypeError, acceptField)
           | Some af \<Rightarrow>
               (case pPayload of
                  None \<Rightarrow> (Inl TypeError, acceptField)
                | Some p \<Rightarrow>
                    (case claim_check env ''iss'' p af of
                       Some r \<Rightarrow> (r, acceptField)
                     | None \<Rightarrow>
                    (case claim_check env ''sub'' p af of
                       Some r \<Rightarrow> (r, acceptField)
                     | None \<Rightarrow>
                    (case aud_check env p af of
                       Some r \<Rightarrow> (r, acceptField)
                     | None \<Rightarrow> verifyJWT_time env sJWT key p af))))))"

text \<open>
  \<^verbatim>\<open>verifyJWT(sJWT, key, acceptField)\<close> (lines 594-671): steps 1 to 3 decode the token,
  with \<^verbatim>\<open>a[1]\<close> and \<^verbatim>\<open>a[2]\<close> possibly \<^verbatim>\<open>undefined\<close>, then the checks run.
\<close>

definition verifyJWT ::
  "jws_env \<Rightarrow> string \<Rightarrow> key \<Rightarrow> AcceptField option \<Rightarrow> (error + bool) \<times> AcceptField option" where
  "verifyJWT env sJWT key acceptField =
     (let a = js_split (CHR ''.'') sJWT;
          uHeader = js_nth a 0;
          uPayload = js_nth a 1
      in case b64utohex env (js_nth a 2) of
           Inl e \<Rightarrow> (Inl e, acceptField)
         | Inr hSig \<Rightarrow>
             (case b64utoutf8 env uHeader of
                Inl e \<Rightarrow> (Inl e, acceptField)
              | Inr sHead \<Rightarrow>
                  (let pHeader = readSafeJSONString env sHead
                   in case b64utoutf8 env uPayload of
                        Inl e \<Rightarrow> (Inl e, acceptField)
                      | Inr sPayload \<Rightarrow>
                          (let pPayload = readSafeJSONString env sPayload
                           in verifyJWT_checks env sJWT key pHeader pPayload acceptField))))"

text \<open>
  The grace period in force in the time checks: the entry \<^verbatim>\<open>gracePeriod\<close> of the dictionary
  when that is a number, and otherwise the 0 that step 8 stores in its place.
\<close>

definition gracePeriod :: "AcceptField \<Rightarrow> number" where
  "gracePeriod af = (case af ''gracePeriod'' of Some (JNum g) \<Rightarrow> g | _ \<Rightarrow> Num 0)"

text \<open>
  A call of \<^verbatim>\<open>verifyJWT\<close> gets to step 8 (line 637) when the three decodings of steps 1
  to 3 return, the payload is an object, and none of the checks of steps 4 to 7 returns or
  throws.
\<close>

definition reaches_step8 :: "jws_env \<Rightarrow> string \<Rightarrow> AcceptField \<Rightarrow> bool" where
  "reaches_step8 env sJWT af =
     (let a = js_split (CHR ''.'') sJWT
      in case b64utohex env (js_nth a 2) of
           Inl e \<Rightarrow> False
         | Inr hSig \<Rightarrow>
             (case b64utoutf8 env (js_nth a 0) of
                Inl e \<Rightarrow> False
              | Inr sHead \<Rightarrow>
                  (case b64utoutf8 env (js_nth a 1) of
                     Inl e \<Rightarrow> False
                   | Inr sPayload \<Rightarrow>
                       alg_check env (readSafeJSONString env sHead) (Some af) = None \<and>
                       (case readSafeJSONString env sPayload of
                          None \<Rightarrow> False
                        | Some p \<Rightarrow>
                            claim_check env ''iss'' p af = None \<and>
                            claim_check env ''sub'' p af = None \<and>
                            aud_check env p af = None))))"

section \<open>Distinguished-name strings (asn1x509-1.0.js, class X500Name)\<close>

text \<open>\<^verbatim>\<open>item.substr(-1, 1) === "\\"\<close>: the last character of the item is a backslash.\<close>

definition ends_with_bs :: "string \<Rightarrow> bool" where
  "ends_with_bs item = (item \<noteq> [] \<and> last item = bslash)"

text \<open>\<^verbatim>\<open>X500Name.onelineToLDAP\<close> (lines 1456-1466).\<close>

definition onelineToLDAP :: "string \<Rightarrow> error + string" where
  "onelineToLDAP s =
     (if take 1 s \<noteq> ''/'' then Inl (Throw ''malformed input'')
      else let s1 = drop 1 s;
               a = js_split (CHR ''/'') s1;
               a1 = rev a;
               a2 = map (replace_first (CHR '','') [bslash, CHR '','']) a1
           in Inr (js_join '','' a2))"

text \<open>
  The loop of \<^verbatim>\<open>X500Name.ldapToOneline\<close> (lines 1484-1500) that joins an item to the one
  before it when that one ended with a backslash. \<^verbatim>\<open>a2.pop()\<close> on an empty array is
  \<^verbatim>\<open>undefined\<close>, which the concatenation prints.
\<close>

fun ldap_join_loop :: "string list \<Rightarrow> string list \<Rightarrow> bool \<Rightarrow> string list" where
  "ldap_join_loop [] a2 isBSbefore = a2"
| "ldap_join_loop (item # a) a2 isBSbefore =
     (let a2' = (if isBSbefore
                 then (if a2 = [] then [replace_all_bs_comma (''undefined'' @ '','' @ item)]
                       else butlast a2 @ [replace_all_bs_comma (last a2 @ '','' @ item)])
                 else a2 @ [item])
      in ldap_join_loop a a2' (ends_with_bs item))"

text \<open>\<^verbatim>\<open>X500Name.ldapToOneline\<close> (lines 1480-1505).\<close>

definition ldapToOneline :: "string \<Rightarrow> string" where
  "ldapToOneline s =
     (let a = js_split (CHR '','') s;
          a2 = ldap_join_loop a [] False;
          a3 = map (replace_first (CHR ''/'') [bslash, CHR ''/'']) a2;
          a4 = rev a3
      in ''/'' @ js_join ''/'' a4)"

text \<open>The number of commas in a string.\<close>

definition comma_count :: "string \<Rightarrow> nat" where
  "comma_count s = length (filter (\<lambda>ch. ch = CHR '','') s)"

text \<open>
  Every occurrence in \<open>s\<close> of a character of \<open>cs\<close> is escaped, that is, it comes
  directly after a backslash.
\<close>

fun all_escaped :: "char list \<Rightarrow> string \<Rightarrow> bool" where
  "all_escaped cs [] = True"
| "all_escaped cs [x] = (x \<notin> set cs)"
| "all_escaped cs (x # y # zs) =
     (x \<notin> set cs \<and> (if x = bslash then all_escaped cs zs else all_escaped cs (y # zs)))"

section \<open>ASN.1 objects (asn1x509-1.0.js)\<close>

text \<open>
  Modelled from the spec: the fields \<^verbatim>\<open>hTLV\<close> and \<^verbatim>\<open>isModified\<close> that every class of
  the file inherits from \<^verbatim>\<open>ASN1Object\<close> (asn1-1.0.js, which is not under src/). The spec
  calls them the memoised encoding and the dirty flag: a fresh object has no encoding and
  counts as modified.
\<close>

record ASN1Object =
  hTLV :: "string option"
  isModified :: bool

text \<open>
  \<^verbatim>\<open>AlgorithmIdentifier\<close> (lines 1927-1982): the algorithm name given to the
  constructor, \<^verbatim>\<open>null\<close> without one. \<open>algHex\<close> is what its \<^verbatim>\<open>getEncodedHex\<close> returns,
  which is computed from the OID tables outside the file.
\<close>

record AlgorithmIdentifier =
  nameAlg :: "string option"
  algHex :: "error + string"

text \<open>
  The objects the code puts into ASN.1 structures: \<^verbatim>\<open>null\<close> (a field that was never
  set), the primitives of the ASN.1 kernel with the parameters the code passes to their
  constructors (\<^verbatim>\<open>DERTaggedObject\<close> with its optional \<^verbatim>\<open>explicit\<close> and \<^verbatim>\<open>tag\<close>), an
  \<^verbatim>\<open>AlgorithmIdentifier\<close>, and any other object of the file (a name, a time, a public
  key, an extension, a CRL entry), which is given by what its \<^verbatim>\<open>getEncodedHex\<close> returns.
\<close>

datatype asn1 =
    Null
  | DERInteger int
  | DERBitString string
  | DERSequence "asn1 list"
  | DERTaggedObject "bool option" "string option" asn1
  | AlgId AlgorithmIdentifier
  | Other "error + string"

text \<open>
  The encoders of the ASN.1 kernel (asn1-1.0.js, not under src/), as parameters: each
  gives the hexadecimal TLV of a primitive from its constructor parameters and, for the two
  containers, from the encodings of what they contain.
\<close>

record asn1_kernel =
  DERInteger_hex :: "int \<Rightarrow> error + string"
  DERBitString_hex :: "string \<Rightarrow> error + string"
  DERSequence_hex :: "string list \<Rightarrow> string"
  DERTaggedObject_hex :: "bool option \<Rightarrow> string option \<Rightarrow> string \<Rightarrow> string"

text \<open>The results of a list of calls made in order: the first exception, if any.\<close>

fun first_error :: "(error + 'a) list \<Rightarrow> error + 'a list" where
  "first_error [] = Inr []"
| "first_error (Inl e # rs) = Inl e"
| "first_error (Inr x # rs) = (case first_error rs of Inl e \<Rightarrow> Inl e | Inr xs \<Rightarrow> Inr (x # xs))"

text \<open>
  \<^verbatim>\<open>getEncodedHex()\<close> of an object: a sequence encodes its elements in order, and a call
  on \<^verbatim>\<open>null\<close> is a TypeError.
\<close>

fun asn1_getEncodedHex :: "asn1_kernel \<Rightarrow> asn1 \<Rightarrow> error + string" where
  "asn1_getEncodedHex K Null = Inl TypeError"
| "asn1_getEncodedHex K (DERInteger i) = DERInteger_hex K i"
| "asn1_getEncodedHex K (DERBitString h) = DERBitString_hex K h"
| "asn1_getEncodedHex K (DERSequence xs) =
     (case first_error (map (asn1_getEncodedHex K) xs) of
        Inl e \<Rightarrow> Inl e
      | Inr hs \<Rightarrow> Inr (DERSequence_hex K hs))"
| "asn1_getEncodedHex K (DERTaggedObject explicit tag obj) =
     (case asn1_getEncodedHex K obj of
        Inl e \<Rightarrow> Inl e
      | Inr h \<Rightarrow> Inr (DERTaggedObject_hex K explicit tag h))"
| "asn1_getEncodedHex K (AlgId a) = algHex a"
| "asn1_getEncodedHex K (Other r) = r"

definition algId_obj :: "AlgorithmIdentifier option \<Rightarrow> asn1" where
  "algId_obj a = (case a of None \<Rightarrow> Null | Some x \<Rightarrow> AlgId x)"

subsection \<open>TBSCertificate (lines 198-389)\<close>

record TBSCertificate = ASN1Object +
  asn1Array :: "asn1 list"
  asn1Version :: asn1
  asn1SerialNumber :: asn1
  asn1SignatureAlg :: "AlgorithmIdentifier option"
  asn1Issuer :: asn1
  asn1NotBefore :: asn1
  asn1NotAfter :: asn1
  asn1Subject :: asn1
  asn1SubjPKey :: asn1
  extensionsArray :: "asn1 list"

text \<open>The constructor (lines 202-216).\<close>

definition TBSCertificate_new :: TBSCertificate where
  "TBSCertificate_new =
     \<lparr> hTLV = None, isModified = True,
       asn1Array = [],
       asn1Version = DERTaggedObject None None (DERInteger 2),
       asn1SerialNumber = Null,
       asn1SignatureAlg = None,
       asn1Issuer = Null,
       asn1NotBefore = Null,
       asn1NotAfter = Null,
       asn1Subject = Null,
       asn1SubjPKey = Null,
       extensionsArray = [] \<rparr>"

text \<open>
  The setters (lines 225-319). Each stores the object that a constructor of the file builds
  from the parameter; the argument here is that object.
\<close>

datatype tbs_setter =
    setSerialNumberByParam asn1
  | setSignatureAlgByParam AlgorithmIdentifier
  | setIssuerByParam asn1
  | setNotBeforeByParam asn1
  | setNotAfterByParam asn1
  | setSubjectByParam asn1
  | setSubjectPublicKey asn1
  | appendExtension asn1

fun tbs_apply :: "TBSCertificate \<Rightarrow> tbs_setter \<Rightarrow> TBSCertificate" where
  "tbs_apply t (setSerialNumberByParam x) = t\<lparr>asn1SerialNumber := x\<rparr>"
| "tbs_apply t (setSignatureAlgByParam a) = t\<lparr>asn1SignatureAlg := Some a\<rparr>"
| "tbs_apply t (setIssuerByParam x) = t\<lparr>asn1Issuer := x\<rparr>"
| "tbs_apply t (setNotBeforeByParam x) = t\<lparr>asn1NotBefore := x\<rparr>"
| "tbs_apply t (setNotAfterByParam x) = t\<lparr>asn1NotAfter := x\<rparr>"
| "tbs_apply t (setSubjectByParam x) = t\<lparr>asn1Subject := x\<rparr>"
| "tbs_apply t (setSubjectPublicKey x) = t\<lparr>asn1SubjPKey := x\<rparr>"
| "tbs_apply t (appendExtension x) = t\<lparr>extensionsArray := extensionsArray t @ [x]\<rparr>"

definition tbs_calls :: "tbs_setter list \<Rightarrow> TBSCertificate" where
  "tbs_calls cs = foldl tbs_apply TBSCertificate_new cs"

text \<open>
  \<^verbatim>\<open>TBSCertificate.getEncodedHex\<close> (lines 358-388). The assignment to \<^verbatim>\<open>this.asn1Array\<close>
  happens before the sequence is encoded, so it stays when the encoding throws.
\<close>

definition TBSCertificate_fields :: "TBSCertificate \<Rightarrow> asn1 list" where
  "TBSCertificate_fields t =
     [asn1Version t,
      asn1SerialNumber t,
      algId_obj (asn1SignatureAlg t),
      asn1Issuer t,
      DERSequence [asn1NotBefore t, asn1NotAfter t],
      asn1Subject t,
      asn1SubjPKey t]
     @ (if length (extensionsArray t) > 0
        then [DERTaggedObject (Some True) (Some ''a3'') (DERSequence (extensionsArray t))]
        else [])"

definition TBSCertificate_getEncodedHex ::
  "asn1_kernel \<Rightarrow> TBSCertificate \<Rightarrow> (error + string) \<times> TBSCertificate" where
  "TBSCertificate_getEncodedHex K t =
     (if asn1NotBefore t = Null \<or> asn1NotAfter t = Null
      then (Inl (Throw ''notBefore and/or notAfter not set''), t)
      else
        (let t1 = t\<lparr>asn1Array := TBSCertificate_fields t\<rparr>
         in case asn1_getEncodedHex K (DERSequence (asn1Array t1)) of
              Inl e \<Rightarrow> (Inl e, t1)
            | Inr h \<Rightarrow> (Inr h, t1\<lparr>hTLV := Some h, isModified := False\<rparr>)))"

subsection \<open>TBSCertList (lines 1134-1235)\<close>

record TBSCertList = ASN1Object +
  asn1Array_l :: "asn1 list"
  asn1Version_l :: asn1
  asn1SignatureAlg_l :: "AlgorithmIdentifier option"
  asn1Issuer_l :: asn1
  asn1ThisUpdate :: asn1
  asn1NextUpdate :: asn1
  aRevokedCert :: "asn1 list"

text \<open>The constructor (lines 1138-1148); \<^verbatim>\<open>asn1Array\<close> is declared without a value.\<close>

definition TBSCertList_new :: TBSCertList where
  "TBSCertList_new =
     \<lparr> hTLV = None, isModified = True,
       asn1Array_l = [],
       asn1Version_l = Null,
       asn1SignatureAlg_l = None,
       asn1Issuer_l = Null,
       asn1ThisUpdate = Null,
       asn1NextUpdate = Null,
       aRevokedCert = [] \<rparr>"

text \<open>\<^verbatim>\<open>TBSCertList.getEncodedHex\<close> (lines 1216-1234).\<close>

definition TBSCertList_fields :: "TBSCertList \<Rightarrow> asn1 list" where
  "TBSCertList_fields t =
     (if asn1Version_l t \<noteq> Null then [asn1Version_l t] else [])
     @ [algId_obj (asn1SignatureAlg_l t), asn1Issuer_l t, asn1ThisUpdate t]
     @ (if asn1NextUpdate t \<noteq> Null then [asn1NextUpdate t] else [])
     @ (if length (aRevokedCert t) > 0 then [DERSequence (aRevokedCert t)] else [])"

definition TBSCertList_getEncodedHex ::
  "asn1_kernel \<Rightarrow> TBSCertList \<Rightarrow> (error + string) \<times> TBSCertList" where
  "TBSCertList_getEncodedHex K t =
     (let t1 = t\<lparr>asn1Array_l := TBSCertList_fields t\<rparr>
      in case asn1_getEncodedHex K (DERSequence (asn1Array_l t1)) of
           Inl e \<Rightarrow> (Inl e, t1)
         | Inr h \<Rightarrow> (Inr h, t1\<lparr>hTLV := Some h, isModified := False\<rparr>))"

subsection \<open>The signature engine\<close>

text \<open>
  \<^verbatim>\<open>KJUR.crypto.Signature\<close> is a collaborator outside the file, so it is a parameter:
  \<open>Signature_new alg\<close> is the constructor called with the algorithm name (\<open>None\<close> when the
  name is \<^verbatim>\<open>null\<close>), \<open>Signature_init alg key\<close> is \<^verbatim>\<open>init(key)\<close> on that object, and
  \<open>Signature_sign alg key hex\<close> is \<^verbatim>\<open>updateHex(hex)\<close> followed by \<^verbatim>\<open>sign()\<close>.
  The file does not import \<^verbatim>\<open>KJUR\<close>: \<open>global_KJUR\<close> tells whether the global object has a
  property of that name, and reading the name without one is a ReferenceError, thrown
  before the argument of the constructor is evaluated. \<open>global_sig\<close> tells whether the
  global object has a property named \<^verbatim>\<open>sig\<close>: the file is a module in strict mode, where an
  assignment to a name that is declared nowhere is a ReferenceError, thrown after the
  right-hand side is evaluated.
\<close>

record sig_env =
  global_KJUR :: bool
  Signature_new :: "string option \<Rightarrow> error + unit"
  Signature_init :: "string option \<Rightarrow> key \<Rightarrow> error + unit"
  Signature_sign :: "string option \<Rightarrow> key \<Rightarrow> string \<Rightarrow> error + string"
  global_sig :: bool

subsection \<open>Certificate (lines 88-178)\<close>

record Certificate = ASN1Object +
  asn1TBSCert :: "TBSCertificate option"
  asn1SignatureAlg_c :: "AlgorithmIdentifier option"
  asn1Sig :: asn1
  hexSig :: "string option"
  prvKey :: key

text \<open>
  The constructor (lines 92-109), with the two parameters \<^verbatim>\<open>tbscertobj\<close> and
  \<^verbatim>\<open>prvkeyobj\<close>, each of which may be missing.
\<close>

definition Certificate_new :: "TBSCertificate option \<Rightarrow> key option \<Rightarrow> Certificate" where
  "Certificate_new tbscertobj prvkeyobj =
     \<lparr> hTLV = None, isModified = True,
       asn1TBSCert = tbscertobj,
       asn1SignatureAlg_c = None,
       asn1Sig = Null,
       hexSig = None,
       prvKey = (case prvkeyobj of None \<Rightarrow> KNull | Some k \<Rightarrow> k) \<rparr>"

text \<open>
  The end of \<^verbatim>\<open>sign\<close> (lines 128-130) and of \<^verbatim>\<open>setSignatureHex\<close> (lines 145-151): the
  outer sequence of the TBS object, the algorithm identifier and the signature is encoded,
  which calls \<^verbatim>\<open>getEncodedHex\<close> on each of the three, and the result is stored.
\<close>

definition Certificate_assemble ::
  "asn1_kernel \<Rightarrow> Certificate \<Rightarrow> (error + unit) \<times> Certificate" where
  "Certificate_assemble K c =
     (case asn1TBSCert c of
        None \<Rightarrow> (Inl TypeError, c)
      | Some tbs \<Rightarrow>
          (case TBSCertificate_getEncodedHex K tbs of
             (Inl e, tbs') \<Rightarrow> (Inl e, c\<lparr>asn1TBSCert := Some tbs'\<rparr>)
           | (Inr h1, tbs') \<Rightarrow>
               (case asn1_getEncodedHex K (algId_obj (asn1SignatureAlg_c c)) of
                  Inl e \<Rightarrow> (Inl e, c\<lparr>asn1TBSCert := Some tbs'\<rparr>)
                | Inr h2 \<Rightarrow>
                    (case asn1_getEncodedHex K (asn1Sig c) of
                       Inl e \<Rightarrow> (Inl e, c\<lparr>asn1TBSCert := Some tbs'\<rparr>)
                     | Inr h3 \<Rightarrow>
                         (Inr (),
                          c\<lparr>asn1TBSCert := Some tbs',
                            hTLV := Some (DERSequence_hex K [h1, h2, h3]),
                            isModified := False\<rparr>)))))"

text \<open>\<^verbatim>\<open>Certificate.sign\<close> (lines 118-131).\<close>

definition Certificate_sign ::
  "asn1_kernel \<Rightarrow> sig_env \<Rightarrow> Certificate \<Rightarrow> (error + unit) \<times> Certificate" where
  "Certificate_sign K E c =
     (case asn1TBSCert c of
        None \<Rightarrow> (Inl TypeError, c)
      | Some tbs \<Rightarrow>
          (let c1 = c\<lparr>asn1SignatureAlg_c := asn1SignatureAlg tbs\<rparr>
           in if \<not> global_KJUR E then (Inl ReferenceError, c1)
              else
              case asn1SignatureAlg_c c1 of
                None \<Rightarrow> (Inl TypeError, c1)
              | Some alg \<Rightarrow>
                  (case Signature_new E (nameAlg alg) of
                     Inl e \<Rightarrow> (Inl e, c1)
                   | Inr u \<Rightarrow>
                  (case Signature_init E (nameAlg alg) (prvKey c1) of
                     Inl e \<Rightarrow> (Inl e, c1)
                   | Inr u \<Rightarrow>
                  (case TBSCertificate_getEncodedHex K tbs of
                     (Inl e, tbs') \<Rightarrow> (Inl e, c1\<lparr>asn1TBSCert := Some tbs'\<rparr>)
                   | (Inr hTBS, tbs') \<Rightarrow>
                  (case Signature_sign E (nameAlg alg) (prvKey c1) hTBS of
                     Inl e \<Rightarrow> (Inl e, c1\<lparr>asn1TBSCert := Some tbs'\<rparr>)
                   | Inr h \<Rightarrow>
                       Certificate_assemble K
                         (c1\<lparr>asn1TBSCert := Some tbs',
                             hexSig := Some h,
                             asn1Sig := DERBitString (''00'' @ h)\<rparr>)))))))"

text \<open>\<^verbatim>\<open>Certificate.setSignatureHex\<close> (lines 140-152).\<close>

definition Certificate_setSignatureHex ::
  "asn1_kernel \<Rightarrow> string \<Rightarrow> Certificate \<Rightarrow> (error + unit) \<times> Certificate" where
  "Certificate_setSignatureHex K sigHex c =
     (case asn1TBSCert c of
        None \<Rightarrow> (Inl TypeError, c)
      | Some tbs \<Rightarrow>
          Certificate_assemble K
            (c\<lparr>asn1SignatureAlg_c := asn1SignatureAlg tbs,
               hexSig := Some sigHex,
               asn1Sig := DERBitString (''00'' @ sigHex)\<rparr>))"

text \<open>
  \<^verbatim>\<open>Certificate.getEncodedHex\<close> (lines 158-161). It assigns nothing; the object is
  returned next to the result so that calls can be put in sequence.
\<close>

definition Certificate_getEncodedHex :: "Certificate \<Rightarrow> (error + string) \<times> Certificate" where
  "Certificate_getEncodedHex c =
     (if isModified c = False \<and> hTLV c \<noteq> None
      then (case hTLV c of Some h \<Rightarrow> (Inr h, c) | None \<Rightarrow> (Inl (Throw ''not signed yet''), c))
      else (Inl (Throw ''not signed yet''), c))"

text \<open>
  A caller working on one certificate: it calls \<^verbatim>\<open>sign\<close>, \<^verbatim>\<open>setSignatureHex\<close> and
  \<^verbatim>\<open>getEncodedHex\<close> in some order, catching what they throw, and it changes the fields of
  the certificate by calling the setters of the TBSCertificate object that the certificate
  refers to (\<^verbatim>\<open>cert.asn1TBSCert\<close>, the object the caller gave to the constructor).
  \<open>Certificate_run\<close> gives the outcome of every call, \<open>Certificate_after\<close> the object after
  the last of them. \<open>Returned\<close> is the outcome of a \<^verbatim>\<open>sign\<close> or \<^verbatim>\<open>setSignatureHex\<close> that
  completes, \<open>ReturnedSetter\<close> that of a setter.
\<close>

datatype cert_call =
    Call_sign
  | Call_setSignatureHex string
  | Call_getEncodedHex
  | Call_tbs tbs_setter

datatype cert_outcome = Returned | ReturnedHex string | ReturnedSetter | Thrown error

fun Certificate_call ::
  "asn1_kernel \<Rightarrow> sig_env \<Rightarrow> cert_call \<Rightarrow> Certificate \<Rightarrow> cert_outcome \<times> Certificate" where
  "Certificate_call K E Call_sign c =
     (case Certificate_sign K E c of
        (Inl e, c') \<Rightarrow> (Thrown e, c')
      | (Inr u, c') \<Rightarrow> (Returned, c'))"
| "Certificate_call K E (Call_setSignatureHex h) c =
     (case Certificate_setSignatureHex K h c of
        (Inl e, c') \<Rightarrow> (Thrown e, c')
      | (Inr u, c') \<Rightarrow> (Returned, c'))"
| "Certificate_call K E Call_getEncodedHex c =
     (case Certificate_getEncodedHex c of
        (Inl e, c') \<Rightarrow> (Thrown e, c')
      | (Inr h, c') \<Rightarrow> (ReturnedHex h, c'))"
| "Certificate_call K E (Call_tbs s) c =
     (case asn1TBSCert c of
        None \<Rightarrow> (Thrown TypeError, c)
      | Some tbs \<Rightarrow> (ReturnedSetter, c\<lparr>asn1TBSCert := Some (tbs_apply tbs s)\<rparr>))"

text \<open>The calls that store an encoding in the certificate.\<close>

fun is_signing_call :: "cert_call \<Rightarrow> bool" where
  "is_signing_call Call_sign = True"
| "is_signing_call (Call_setSignatureHex h) = True"
| "is_signing_call x = False"

fun Certificate_run ::
  "asn1_kernel \<Rightarrow> sig_env \<Rightarrow> cert_call list \<Rightarrow> Certificate \<Rightarrow> cert_outcome list" where
  "Certificate_run K E [] c = []"
| "Certificate_run K E (x # xs) c =
     (case Certificate_call K E x c of (r, c') \<Rightarrow> r # Certificate_run K E xs c')"

fun Certificate_after ::
  "asn1_kernel \<Rightarrow> sig_env \<Rightarrow> cert_call list \<Rightarrow> Certificate \<Rightarrow> Certificate" where
  "Certificate_after K E [] c = c"
| "Certificate_after K E (x # xs) c =
     (case Certificate_call K E x c of (r, c') \<Rightarrow> Certificate_after K E xs c')"

subsection \<open>CRL (lines 1029-1102)\<close>

record CRL = ASN1Object +
  asn1TBSCertList :: "TBSCertList option"
  asn1SignatureAlg_r :: "AlgorithmIdentifier option"
  asn1Sig_r :: asn1
  hexSig_r :: "string option"
  prvKey_r :: key

text \<open>The constructor (lines 1033-1050), with the parameters \<^verbatim>\<open>tbsobj\<close> and \<^verbatim>\<open>prvkeyobj\<close>.\<close>

definition CRL_new :: "TBSCertList option \<Rightarrow> key option \<Rightarrow> CRL" where
  "CRL_new tbsobj prvkeyobj =
     \<lparr> hTLV = None, isModified = True,
       asn1TBSCertList = tbsobj,
       asn1SignatureAlg_r = None,
       asn1Sig_r = Null,
       hexSig_r = None,
       prvKey_r = (case prvkeyobj of None \<Rightarrow> KNull | Some k \<Rightarrow> k) \<rparr>"

text \<open>The end of \<^verbatim>\<open>CRL.sign\<close> (lines 1069-1075).\<close>

definition CRL_assemble :: "asn1_kernel \<Rightarrow> CRL \<Rightarrow> (error + unit) \<times> CRL" where
  "CRL_assemble K c =
     (case asn1TBSCertList c of
        None \<Rightarrow> (Inl TypeError, c)
      | Some tbs \<Rightarrow>
          (case TBSCertList_getEncodedHex K tbs of
             (Inl e, tbs') \<Rightarrow> (Inl e, c\<lparr>asn1TBSCertList := Some tbs'\<rparr>)
           | (Inr h1, tbs') \<Rightarrow>
               (case asn1_getEncodedHex K (algId_obj (asn1SignatureAlg_r c)) of
                  Inl e \<Rightarrow> (Inl e, c\<lparr>asn1TBSCertList := Some tbs'\<rparr>)
                | Inr h2 \<Rightarrow>
                    (case asn1_getEncodedHex K (asn1Sig_r c) of
                       Inl e \<Rightarrow> (Inl e, c\<lparr>asn1TBSCertList := Some tbs'\<rparr>)
                     | Inr h3 \<Rightarrow>
                         (Inr (),
                          c\<lparr>asn1TBSCertList := Some tbs',
                            hTLV := Some (DERSequence_hex K [h1, h2, h3]),
                            isModified := False\<rparr>)))))"

text \<open>
  \<^verbatim>\<open>CRL.sign\<close> (lines 1059-1076). The signature object is constructed for the fixed
  name \<^verbatim>\<open>SHA1withRSA\<close> and assigned to \<^verbatim>\<open>sig\<close>, a name the method does not declare.
\<close>

definition CRL_sign :: "asn1_kernel \<Rightarrow> sig_env \<Rightarrow> CRL \<Rightarrow> (error + unit) \<times> CRL" where
  "CRL_sign K E c =
     (case asn1TBSCertList c of
        None \<Rightarrow> (Inl TypeError, c)
      | Some tbs \<Rightarrow>
          (let c1 = c\<lparr>asn1SignatureAlg_r := asn1SignatureAlg_l tbs\<rparr>
           in if \<not> global_KJUR E then (Inl ReferenceError, c1)
              else
              case Signature_new E (Some ''SHA1withRSA'') of
                Inl e \<Rightarrow> (Inl e, c1)
              | Inr u \<Rightarrow>
                  (if \<not> global_sig E then (Inl ReferenceError, c1)
                   else
                  (case Signature_init E (Some ''SHA1withRSA'') (prvKey_r c1) of
                     Inl e \<Rightarrow> (Inl e, c1)
                   | Inr u \<Rightarrow>
                  (case TBSCertList_getEncodedHex K tbs of
                     (Inl e, tbs') \<Rightarrow> (Inl e, c1\<lparr>asn1TBSCertList := Some tbs'\<rparr>)
                   | (Inr hTBS, tbs') \<Rightarrow>
                  (case Signature_sign E (Some ''SHA1withRSA'') (prvKey_r c1) hTBS of
                     Inl e \<Rightarrow> (Inl e, c1\<lparr>asn1TBSCertList := Some tbs'\<rparr>)
                   | Inr h \<Rightarrow>
                       CRL_assemble K
                         (c1\<lparr>asn1TBSCertList := Some tbs',
                             hexSig_r := Some h,
                             asn1Sig_r := DERBitString (''00'' @ h)\<rparr>)))))))"

text \<open>\<^verbatim>\<open>CRL.getEncodedHex\<close> (lines 1082-1085).\<close>

definition CRL_getEncodedHex :: "CRL \<Rightarrow> (error + string) \<times> CRL" where
  "CRL_getEncodedHex c =
     (if isModified c = False \<and> hTLV c \<noteq> None
      then (case hTLV c of Some h \<Rightarrow> (Inr h, c) | None \<Rightarrow> (Inl (Throw ''not signed yet''), c))
      else (Inl (Throw ''not signed yet''), c))"

section \<open>Example environments\<close>

text \<open>
  A small environment for concrete tokens. The base64 decoders are the identity, the text
  \<open>h\<close> parses to the object \<open>header\<close> and the text \<open>p\<close> to the object \<open>payload\<close>, every MAC
  is \<open>s\<close>, and a signature verifies when it is \<open>s\<close>. So \<open>h.p.s\<close> is a token with that header
  and payload and a valid signature, read at the time \<open>now\<close>. The numbers of the examples
  are integers far below \<open>2 ^ 53\<close>: they print as their decimal digits and their sums and
  differences are exact. No text of the examples reads as a number.
\<close>

definition example_number_to_string :: "number \<Rightarrow> string" where
  "example_number_to_string n =
     (case n of
        Num x \<Rightarrow> int_to_dec \<lfloor>x\<rfloor>
      | NaN \<Rightarrow> ''NaN''
      | PosInfinity \<Rightarrow> ''Infinity''
      | NegInfinity \<Rightarrow> ''-Infinity'')"

definition example_env :: "Dictionary \<Rightarrow> Dictionary \<Rightarrow> real \<Rightarrow> jws_env" where
  "example_env header payload now =
     \<lparr> b64utohex = (\<lambda>x. case x of None \<Rightarrow> Inl TypeError | Some t \<Rightarrow> Inr t),
       b64utoutf8 = (\<lambda>x. case x of None \<Rightarrow> Inl TypeError | Some t \<Rightarrow> Inr t),
       JSON_parse = (\<lambda>t. if t = ''h'' then Some (JObj header)
                          else if t = ''p'' then Some (JObj payload)
                          else None),
       getKey = (\<lambda>t. Inl (External ''getKey'')),
       Mac_doFinal = (\<lambda>alg k input. Inr ''s''),
       concatSigToASN1Sig = (\<lambda>t. Inr t),
       Signature_verify = (\<lambda>alg k input sg. Inr (sg = ''s'')),
       getNow = Num now,
       NumberToString = example_number_to_string,
       StringToNumber = (\<lambda>t. NaN),
       double_of_real = Num \<rparr>"

text \<open>
  The same environment for numbers just above \<open>2 ^ 53 = 9007199254740992\<close>, where the
  doubles are the even integers: it has the one rounding the example below needs, of the
  sum \<open>2 ^ 53 + 3\<close>, which lies halfway between two doubles and goes to \<open>2 ^ 53 + 4\<close>.
\<close>

definition example_env_rounding :: "Dictionary \<Rightarrow> Dictionary \<Rightarrow> real \<Rightarrow> jws_env" where
  "example_env_rounding header payload now =
     (example_env header payload now)
       \<lparr> double_of_real :=
           (\<lambda>x. if x = 9007199254740995 then Num 9007199254740996 else Num x) \<rparr>"

text \<open>
  The same environment with a base64 decoder that rejects every text but \<open>h\<close>: the
  payload segment of \<open>h.p.s\<close> does not decode.
\<close>

definition example_env_undecodable_payload :: "Dictionary \<Rightarrow> real \<Rightarrow> jws_env" where
  "example_env_undecodable_payload header now =
     (example_env header [] now)
       \<lparr> b64utoutf8 := (\<lambda>x. if x = Some ''h'' then Inr ''h''
                               else Inl (External ''b64utoutf8'')) \<rparr>"

text \<open>The payload object without its property \<open>k\<close>.\<close>

definition without_claim :: "string \<Rightarrow> Dictionary \<Rightarrow> Dictionary" where
  "without_claim k p = filter (\<lambda>kv. fst kv \<noteq> k) p"

text \<open>
  An ASN.1 kernel that prints the structure it is given, and a signature engine whose
  signature is the name of the algorithm it was constructed with.
\<close>

definition example_kernel :: asn1_kernel where
  "example_kernel =
     \<lparr> DERInteger_hex = (\<lambda>i. Inr (''INT('' @ int_to_dec i @ '')'')),
       DERBitString_hex = (\<lambda>h. Inr (''BITSTRING('' @ h @ '')'')),
       DERSequence_hex = (\<lambda>hs. ''SEQ('' @ js_join '','' hs @ '')''),
       DERTaggedObject_hex =
         (\<lambda>explicit tag h.
            ''['' @ (case tag of None \<Rightarrow> ''a0'' | Some t \<Rightarrow> t) @ '']('' @ h @ '')'') \<rparr>"

definition example_sig_env :: "bool \<Rightarrow> sig_env" where
  "example_sig_env g =
     \<lparr> global_KJUR = True,
       Signature_new = (\<lambda>alg. Inr ()),
       Signature_init = (\<lambda>alg k. Inr ()),
       Signature_sign = (\<lambda>alg k h. Inr (case alg of None \<Rightarrow> ''null'' | Some n \<Rightarrow> n)),
       global_sig = g \<rparr>"

definition example_algId :: "string \<Rightarrow> AlgorithmIdentifier" where
  "example_algId n = \<lparr> nameAlg = Some n, algHex = Inr (''ALG('' @ n @ '')'') \<rparr>"

text \<open>
  A TBSCertificate built with the setters, with the extensions \<open>exts\<close> appended, and a
  TBSCertList; both declare the signature algorithm \<open>SHA256withRSA\<close>. The names, times
  and keys are objects that encode to a text saying what they are.
\<close>

definition example_tbs :: "asn1 list \<Rightarrow> TBSCertificate" where
  "example_tbs exts =
     tbs_calls
       ([setSerialNumberByParam (DERInteger 4),
         setSignatureAlgByParam (example_algId ''SHA256withRSA''),
         setIssuerByParam (Other (Inr ''NAME(issuer)'')),
         setNotBeforeByParam (Other (Inr ''TIME(notBefore)'')),
         setNotAfterByParam (Other (Inr ''TIME(notAfter)'')),
         setSubjectByParam (Other (Inr ''NAME(subject)'')),
         setSubjectPublicKey (Other (Inr ''SPKI''))]
        @ map appendExtension exts)"

definition example_tbslist :: TBSCertList where
  "example_tbslist =
     TBSCertList_new
       \<lparr> asn1SignatureAlg_l := Some (example_algId ''SHA256withRSA''),
         asn1Issuer_l := Other (Inr ''NAME(issuer)''),
         asn1ThisUpdate := Other (Inr ''TIME(thisUpdate)'') \<rparr>"

section \<open>Verification: the shape of the token and the header algorithm\<close>

lemma readSafeJSONString_JObj:
  "JSON_parse env s = Some (JObj d) \<Longrightarrow> readSafeJSONString env s = Some d"
  by (simp add: readSafeJSONString_def)

lemma js_split3:
  "js_split c s = [x, y, z] \<Longrightarrow>
   length (js_split c s) = 3 \<and> js_split c s ! 0 = x \<and> js_split c s ! 1 = y \<and> js_split c s ! 2 = z
   \<and> js_nth (js_split c s) 0 = Some x \<and> js_nth (js_split c s) (Suc 0) = Some y
   \<and> js_nth (js_split c s) 2 = Some z"
  by (simp add: js_nth_def)

text \<open>
  Claim C2, as the code has it: for every input string that does not split at its dots
  into exactly three segments, \<^verbatim>\<open>verify\<close> returns the boolean \<^verbatim>\<open>false\<close>; it does not
  raise. (The claim said that it raises a malformed-input error.)
\<close>

theorem verify_not_three_segments_returns_false:
  "length (js_split (CHR ''.'') sJWS) \<noteq> 3 \<Longrightarrow> verify env sJWS key acceptAlgs = Inr False"
  by (simp add: verify_def)

theorem verify_not_three_segments_witness:
  "length (js_split (CHR ''.'') ''h.p.s.x'') \<noteq> 3 \<and>
   verify (example_env [(''alg'', JStr ''HS256'')] [] 0) ''h.p.s.x'' (KObject ''password'') None
     = Inr False"
  using verify_not_three_segments_returns_false
          [of "''h.p.s.x''" "example_env [(''alg'', JStr ''HS256'')] [] 0" "KObject ''password''" None]
  by simp

text \<open>
  The claim C2 fails on a token of two segments: \<^verbatim>\<open>verify\<close> returns \<^verbatim>\<open>false\<close>.
\<close>

theorem verify_two_segments_counterexample:
  "verify (example_env [(''alg'', JStr ''HS256'')] [] 0) ''h.p'' (KObject ''password'')
     (Some (JArr [JStr ''HS256''])) = Inr False"
  by (simp add: verify_def)

text \<open>
  Claim C8, as the code has it: when the token has exactly three segments, its signature
  segment and its payload segment decode, and its header decodes to an object without an
  \<^verbatim>\<open>alg\<close> property, \<^verbatim>\<open>verifyJWT\<close> returns \<^verbatim>\<open>false\<close> (and leaves \<^verbatim>\<open>acceptField\<close> as it
  was), whereas \<^verbatim>\<open>verify\<close> on the same token throws "algorithm not specified in header".
\<close>

theorem missing_alg_verifyJWT_false_verify_raises:
  assumes seg: "js_split (CHR ''.'') sJWT = [uHeader, uPayload, uSig]"
      and sig: "b64utohex env (Some uSig) = Inr hSig"
      and hd: "b64utoutf8 env (Some uHeader) = Inr sHead"
      and pl: "b64utoutf8 env (Some uPayload) = Inr sPayload"
      and js: "JSON_parse env sHead = Some (JObj pHeader)"
      and noalg: "map_of pHeader ''alg'' = None"
  shows "verifyJWT env sJWT key acceptField = (Inr False, acceptField) \<and>
         verify env sJWT key acceptAlgs = Inl (Throw ''algorithm not specified in header'')"
proof
  show "verifyJWT env sJWT key acceptField = (Inr False, acceptField)"
    using js_split3[OF seg] sig hd pl readSafeJSONString_JObj[OF js] noalg
    by (simp add: verifyJWT_def verifyJWT_checks_def alg_check_def)
  show "verify env sJWT key acceptAlgs = Inl (Throw ''algorithm not specified in header'')"
    using js_split3[OF seg] sig hd readSafeJSONString_JObj[OF js] noalg
    by (simp add: verify_def)
qed

theorem missing_alg_witness:
  "js_split (CHR ''.'') ''h.p.s'' = [''h'', ''p'', ''s''] \<and>
   b64utohex (example_env [(''typ'', JStr ''JWT'')] [] 0) (Some ''s'') = Inr ''s'' \<and>
   b64utoutf8 (example_env [(''typ'', JStr ''JWT'')] [] 0) (Some ''h'') = Inr ''h'' \<and>
   b64utoutf8 (example_env [(''typ'', JStr ''JWT'')] [] 0) (Some ''p'') = Inr ''p'' \<and>
   JSON_parse (example_env [(''typ'', JStr ''JWT'')] [] 0) ''h'' = Some (JObj [(''typ'', JStr ''JWT'')]) \<and>
   map_of [(''typ'', JStr ''JWT'')] ''alg'' = None \<and>
   verifyJWT (example_env [(''typ'', JStr ''JWT'')] [] 0) ''h.p.s'' (KObject ''password'') None
     = (Inr False, None) \<and>
   verify (example_env [(''typ'', JStr ''JWT'')] [] 0) ''h.p.s'' (KObject ''password'') None
     = Inl (Throw ''algorithm not specified in header'')"
proof -
  have 1: "js_split (CHR ''.'') ''h.p.s'' = [''h'', ''p'', ''s'']" by simp
  have 2: "b64utohex (example_env [(''typ'', JStr ''JWT'')] [] 0) (Some ''s'') = Inr ''s''"
    by (simp add: example_env_def)
  have 3: "b64utoutf8 (example_env [(''typ'', JStr ''JWT'')] [] 0) (Some ''h'') = Inr ''h''"
    by (simp add: example_env_def)
  have 4: "b64utoutf8 (example_env [(''typ'', JStr ''JWT'')] [] 0) (Some ''p'') = Inr ''p''"
    by (simp add: example_env_def)
  have 5: "JSON_parse (example_env [(''typ'', JStr ''JWT'')] [] 0) ''h''
             = Some (JObj [(''typ'', JStr ''JWT'')])"
    by (simp add: example_env_def)
  have 6: "map_of [(''typ'', JStr ''JWT'')] ''alg'' = None" by simp
  show ?thesis
    using 1 2 3 4 5 6
      missing_alg_verifyJWT_false_verify_raises [OF 1 2 3 4 5 6, of "KObject ''password''" None None]
    by blast
qed

text \<open>
  The claim C8 did not say how many segments the token has nor that they decode. The
  header of \<open>h.p.s.x\<close> decodes to an object without \<^verbatim>\<open>alg\<close>, and \<^verbatim>\<open>verify\<close> returns
  \<^verbatim>\<open>false\<close> on it, as \<^verbatim>\<open>verifyJWT\<close> does: it does not throw. And when the payload segment
  of \<open>h.p.s\<close> does not decode, \<^verbatim>\<open>verifyJWT\<close> throws what the decoder throws, before it
  looks at the header, while \<^verbatim>\<open>verify\<close> throws "algorithm not specified in header".
\<close>

theorem missing_alg_counterexample:
  "map_of [(''typ'', JStr ''JWT'')] ''alg'' = None \<and>
   verify (example_env [(''typ'', JStr ''JWT'')] [] 0) ''h.p.s.x'' (KObject ''password'') None
     = Inr False \<and>
   fst (verifyJWT (example_env [(''typ'', JStr ''JWT'')] [] 0) ''h.p.s.x'' (KObject ''password'')
          (Some [''alg'' \<mapsto> JArr [JStr ''HS256'']])) = Inr False \<and>
   fst (verifyJWT (example_env_undecodable_payload [(''typ'', JStr ''JWT'')] 0) ''h.p.s''
          (KObject ''password'') (Some [''alg'' \<mapsto> JArr [JStr ''HS256'']]))
     = Inl (External ''b64utoutf8'') \<and>
   verify (example_env_undecodable_payload [(''typ'', JStr ''JWT'')] 0) ''h.p.s''
          (KObject ''password'') None
     = Inl (Throw ''algorithm not specified in header'')"
  by (simp add: verify_def verifyJWT_def verifyJWT_checks_def alg_check_def
        readSafeJSONString_def example_env_def example_env_undecodable_payload_def js_nth_def)

section \<open>Verification: the list of accepted algorithms\<close>

lemma js_includes_iff: "js_includes s sub \<longleftrightarrow> (\<exists>pre post. s = pre @ sub @ post)"
proof (induction s)
  case Nil
  then show ?case by auto
next
  case (Cons c s)
  show ?case
  proof
    assume "js_includes (c # s) sub"
    then consider "take (length sub) (c # s) = sub" | "js_includes s sub" by auto
    then show "\<exists>pre post. c # s = pre @ sub @ post"
    proof cases
      case 1
      then have "c # s = [] @ sub @ drop (length sub) (c # s)"
        by (metis append_Nil append_take_drop_id)
      then show ?thesis by blast
    next
      case 2
      then obtain pre post where "s = pre @ sub @ post" using Cons by blast
      then have "c # s = (c # pre) @ sub @ post" by simp
      then show ?thesis by blast
    qed
  next
    assume "\<exists>pre post. c # s = pre @ sub @ post"
    then obtain pre post where e: "c # s = pre @ sub @ post" by blast
    show "js_includes (c # s) sub"
    proof (cases pre)
      case Nil
      then have "take (length sub) (c # s) = sub" using e by simp
      then show ?thesis by simp
    next
      case (Cons a pre')
      then have "s = pre' @ sub @ post" using e by simp
      then show ?thesis using Cons.IH by auto
    qed
  qed
qed

lemma js_join_colon_terminated:
  "xs \<noteq> [] \<Longrightarrow> js_join '':'' xs @ '':'' = concat (map (\<lambda>x. x @ '':'') xs)"
  by (induction xs rule: js_join.induct[where ?a0.0 = "'':''"]) auto

lemma first_sep_eq:
  assumes "x @ c # A = y @ c # B" and "c \<notin> set x" and "c \<notin> set y"
  shows "x = y \<and> A = B"
  using assms
proof (induction x arbitrary: y)
  case Nil
  then show ?case by (cases y) auto
next
  case (Cons a x)
  then show ?case by (cases y) auto
qed

lemma first_sep_prefix:
  assumes "x @ c # A = p @ c # B" and "c \<notin> set x"
  shows "\<exists>r. p = x @ r \<and> c # A = r @ c # B"
  using assms
proof (induction x arbitrary: p)
  case Nil
  then show ?case by simp
next
  case (Cons a x)
  then show ?case by (cases p) auto
qed

lemma colon_items_occurrence:
  assumes "CHR '':'' # concat (map (\<lambda>x. x @ '':'') xs) = pre @ CHR '':'' # a @ CHR '':'' # post"
      and "CHR '':'' \<notin> set a" and "\<forall>x \<in> set xs. CHR '':'' \<notin> set x"
  shows "a \<in> set xs"
  using assms
proof (induction xs arbitrary: pre)
  case Nil
  then show ?case by (cases pre) auto
next
  case (Cons x xs)
  show ?case
  proof (cases pre)
    case Nil
    with Cons.prems have "x @ CHR '':'' # concat (map (\<lambda>x. x @ '':'') xs) = a @ CHR '':'' # post"
      by simp
    then have "x = a" using first_sep_eq Cons.prems by (metis list.set_intros(1))
    then show ?thesis by simp
  next
    case (Cons d pre')
    with Cons.prems
    have e: "x @ CHR '':'' # concat (map (\<lambda>x. x @ '':'') xs) = pre' @ CHR '':'' # a @ CHR '':'' # post"
      by auto
    have "CHR '':'' \<notin> set x" using Cons.prems by simp
    from first_sep_prefix[OF e this]
    obtain r where "CHR '':'' # concat (map (\<lambda>x. x @ '':'') xs) = r @ CHR '':'' # a @ CHR '':'' # post"
      by blast
    then have "a \<in> set xs" using Cons.IH Cons.prems by simp
    then show ?thesis by simp
  qed
qed

lemma accept_list_rejects:
  assumes "xs \<noteq> []" and "\<forall>x \<in> set xs. CHR '':'' \<notin> set x"
      and "CHR '':'' \<notin> set alg" and "alg \<notin> set xs"
  shows "\<not> js_includes ('':'' @ js_join '':'' xs @ '':'') ('':'' @ alg @ '':'')"
proof
  assume "js_includes ('':'' @ js_join '':'' xs @ '':'') ('':'' @ alg @ '':'')"
  then obtain pre post where
    "'':'' @ js_join '':'' xs @ '':'' = pre @ ('':'' @ alg @ '':'') @ post"
    unfolding js_includes_iff by blast
  then have "CHR '':'' # concat (map (\<lambda>x. x @ '':'') xs) = pre @ CHR '':'' # alg @ CHR '':'' # post"
    using js_join_colon_terminated[OF assms(1)] by simp
  from colon_items_occurrence[OF this assms(3) assms(2)] assms(4) show False by simp
qed


lemma js_join_elem_strings: "map (js_join_elem n2s \<circ> JStr) xs = xs"
  by (induction xs) (simp_all add: js_join_elem_def)

lemma jwsalg2sigalg_get_colon:
  assumes "CHR '':'' \<in> set alg"
  shows "jwsalg2sigalg_get alg = Undefined"
proof -
  have k: "\<forall>k \<in> set (map fst jwsalg2sigalg). CHR '':'' \<notin> set k"
    by (simp add: jwsalg2sigalg_def)
  have p: "\<forall>k \<in> set Object_prototype_names. CHR '':'' \<notin> set k"
    by (simp add: Object_prototype_names_def)
  have "alg \<notin> set (map fst jwsalg2sigalg)" using k assms by blast
  then have "map_of jwsalg2sigalg alg = None" by (simp add: map_of_eq_None_iff)
  moreover have "alg \<notin> set Object_prototype_names" using p assms by blast
  ultimately show ?thesis by (simp add: jwsalg2sigalg_get_def)
qed

lemma verify_alg_colon_raises:
  assumes "CHR '':'' \<in> set alg"
  shows "isl (verify_alg env alg key acceptAlgs uSignatureInput hSig)"
proof -
  obtain r where r: "(case key of
                    KString s \<Rightarrow> if js_includes s ''-----BEGIN '' then getKey env s else Inr key
                  | _ \<Rightarrow> Inr key) = r" by simp
  have n: "alg \<noteq> ''none''" using assms by auto
  show ?thesis
    unfolding verify_alg_def Let_def r
    by (cases r) (simp_all add: jwsalg2sigalg_get_colon[OF assms] n del: js_includes.simps)
qed

lemma verify_alg_rejected:
  assumes "accept \<noteq> []" and "\<forall>x \<in> set accept. CHR '':'' \<notin> set x"
      and "CHR '':'' \<notin> set alg" and "alg \<notin> set accept"
  shows "verify_alg env alg key (Some (JArr (map JStr accept))) uSignatureInput hSig
         = Inl (Throw (''algorithm '' @ [CHR 0x27] @ alg @ [CHR 0x27] @ '' not accepted in the list''))"
  using accept_list_rejects[OF assms] assms(1)
  unfolding verify_alg_def Let_def
  by (simp add: js_join_elem_strings del: js_includes.simps)

text \<open>
  Claim C1, as the code has it: for every token of three segments whose header declares an
  algorithm, and for every non-empty list of accepted algorithm names none of which contains
  a colon and which does not contain the header algorithm, \<^verbatim>\<open>verify\<close> raises an error (it
  does not return \<^verbatim>\<open>false\<close>). When the signature segment decodes and the header algorithm
  is a string without a colon, the error is "algorithm ... not accepted in the list"; so a
  token signed with HS256 and verified with \<open>acceptAlgs = ["RS256"]\<close> raises. (The code
  tests membership by searching \<open>":" + alg + ":"\<close> in the names joined with colons.)
\<close>

theorem verify_alg_not_accepted_raises:
  assumes seg: "js_split (CHR ''.'') sJWS = [uHeader, uPayload, uSig]"
      and hd: "b64utoutf8 env (Some uHeader) = Inr sHead"
      and js: "JSON_parse env sHead = Some (JObj pHeader)"
      and alg: "map_of pHeader ''alg'' = Some v"
      and ne: "accept \<noteq> []"
      and nocolon: "\<forall>x \<in> set accept. CHR '':'' \<notin> set x"
      and notin: "v \<notin> JStr ` set accept"
  shows "isl (verify env sJWS key (Some (JArr (map JStr accept)))) \<and>
         (\<forall>a hSig. b64utohex env (Some uSig) = Inr hSig \<and> v = JStr a \<and> CHR '':'' \<notin> set a \<longrightarrow>
            verify env sJWS key (Some (JArr (map JStr accept)))
            = Inl (Throw (''algorithm '' @ [CHR 0x27] @ a @ [CHR 0x27] @ '' not accepted in the list'')))"
proof
  show "isl (verify env sJWS key (Some (JArr (map JStr accept))))"
  proof (cases "b64utohex env (Some uSig)")
    case (Inl e)
    then show ?thesis using js_split3[OF seg] by (simp add: verify_def)
  next
    case (Inr hSig)
    show ?thesis
    proof (cases v)
      case (JStr a)
      have v: "verify env sJWS key (Some (JArr (map JStr accept)))
               = verify_alg env a key (Some (JArr (map JStr accept))) (uHeader @ ''.'' @ uPayload) hSig"
        using js_split3[OF seg] Inr hd readSafeJSONString_JObj[OF js] alg JStr
        by (simp add: verify_def)
      show ?thesis
      proof (cases "CHR '':'' \<in> set a")
        case True
        then show ?thesis unfolding v by (rule verify_alg_colon_raises)
      next
        case False
        have "a \<notin> set accept" using notin JStr by blast
        from verify_alg_rejected[OF ne nocolon False this] show ?thesis unfolding v by simp
      qed
    qed (use js_split3[OF seg] Inr hd readSafeJSONString_JObj[OF js] alg in \<open>simp_all add: verify_def\<close>)
  qed
next
  show "\<forall>a hSig. b64utohex env (Some uSig) = Inr hSig \<and> v = JStr a \<and> CHR '':'' \<notin> set a \<longrightarrow>
            verify env sJWS key (Some (JArr (map JStr accept)))
            = Inl (Throw (''algorithm '' @ [CHR 0x27] @ a @ [CHR 0x27] @ '' not accepted in the list''))"
  proof (intro allI impI)
    fix a hSig
    assume h: "b64utohex env (Some uSig) = Inr hSig \<and> v = JStr a \<and> CHR '':'' \<notin> set a"
    have v: "verify env sJWS key (Some (JArr (map JStr accept)))
             = verify_alg env a key (Some (JArr (map JStr accept))) (uHeader @ ''.'' @ uPayload) hSig"
      using js_split3[OF seg] h hd readSafeJSONString_JObj[OF js] alg
      by (simp add: verify_def)
    have "a \<notin> set accept" using notin h by blast
    from verify_alg_rejected[OF ne nocolon _ this] h show
      "verify env sJWS key (Some (JArr (map JStr accept)))
       = Inl (Throw (''algorithm '' @ [CHR 0x27] @ a @ [CHR 0x27] @ '' not accepted in the list''))"
      unfolding v by simp
  qed
qed

text \<open>
  The claim C1 without that restriction fails: the list with the single name
  \<open>RS256:HS256\<close> does not contain \<open>HS256\<close>, and \<^verbatim>\<open>verify\<close> goes on to check the MAC.
\<close>

theorem verify_accept_list_colon_counterexample:
  "JStr ''HS256'' \<notin> set [JStr ''RS256:HS256''] \<and>
   verify (example_env [(''alg'', JStr ''HS256'')] [] 0) ''h.p.s'' (KObject ''password'')
     (Some (JArr [JStr ''RS256:HS256''])) = Inr True"
  by (simp add: verify_def example_env_def readSafeJSONString_def verify_alg_def Let_def
        js_join_elem_def jwsalg2sigalg_get_def jwsalg2sigalg_def verify_dispatch_def)


theorem verify_alg_not_accepted_witness:
  "js_split (CHR ''.'') ''h.p.s'' = [''h'', ''p'', ''s''] \<and>
   b64utoutf8 (example_env [(''alg'', JStr ''HS256'')] [] 0) (Some ''h'') = Inr ''h'' \<and>
   JSON_parse (example_env [(''alg'', JStr ''HS256'')] [] 0) ''h'' = Some (JObj [(''alg'', JStr ''HS256'')]) \<and>
   map_of [(''alg'', JStr ''HS256'')] ''alg'' = Some (JStr ''HS256'') \<and>
   [''RS256''] \<noteq> [] \<and>
   JStr ''HS256'' \<notin> JStr ` set [''RS256''] \<and>
   b64utohex (example_env [(''alg'', JStr ''HS256'')] [] 0) (Some ''s'') = Inr ''s'' \<and>
   CHR '':'' \<notin> set ''HS256'' \<and>
   isl (verify (example_env [(''alg'', JStr ''HS256'')] [] 0) ''h.p.s'' (KRSAKeyEx ''public key'')
          (Some (JArr (map JStr [''RS256''])))) \<and>
   verify (example_env [(''alg'', JStr ''HS256'')] [] 0) ''h.p.s'' (KRSAKeyEx ''public key'')
          (Some (JArr (map JStr [''RS256''])))
     = Inl (Throw (''algorithm '' @ [CHR 0x27] @ ''HS256'' @ [CHR 0x27] @ '' not accepted in the list''))"
proof -
  let ?E = "example_env [(''alg'', JStr ''HS256'')] [] 0"
  have 1: "js_split (CHR ''.'') ''h.p.s'' = [''h'', ''p'', ''s'']" by simp
  have 2: "b64utoutf8 ?E (Some ''h'') = Inr ''h''" by (simp add: example_env_def)
  have 3: "JSON_parse ?E ''h'' = Some (JObj [(''alg'', JStr ''HS256'')])"
    by (simp add: example_env_def)
  have 4: "map_of [(''alg'', JStr ''HS256'')] ''alg'' = Some (JStr ''HS256'')" by simp
  have 5: "[''RS256''] \<noteq> []" by simp
  have 6: "\<forall>x \<in> set [''RS256'']. CHR '':'' \<notin> set x" by simp
  have 7: "JStr ''HS256'' \<notin> JStr ` set [''RS256'']" by simp
  have 8: "b64utohex ?E (Some ''s'') = Inr ''s''" by (simp add: example_env_def)
  have 9: "CHR '':'' \<notin> set ''HS256''" by simp
  note t = verify_alg_not_accepted_raises [OF 1 2 3 4 5 6 7, of "KRSAKeyEx ''public key''"]
  from t have a: "isl (verify ?E ''h.p.s'' (KRSAKeyEx ''public key'') (Some (JArr (map JStr [''RS256'']))))"
    by (rule conjunct1)
  from t 8 9 have b: "verify ?E ''h.p.s'' (KRSAKeyEx ''public key'') (Some (JArr (map JStr [''RS256''])))
     = Inl (Throw (''algorithm '' @ [CHR 0x27] @ ''HS256'' @ [CHR 0x27] @ '' not accepted in the list''))"
    by blast
  show ?thesis using 1 2 3 4 5 7 8 9 a b by blast
qed

section \<open>Verification of a JWT: the time checks and the accept dictionary\<close>

lemma map_of_without_claim:
  "map_of (without_claim k p) k' = (if k' = k then None else map_of p k')"
  by (induction p) (auto simp: without_claim_def)

lemma claim_check_without:
  "k' \<noteq> k \<Longrightarrow> claim_check env k' (without_claim k p) af = claim_check env k' p af"
  by (simp add: claim_check_def map_of_without_claim)

lemma aud_check_without:
  "k \<noteq> ''aud'' \<Longrightarrow> aud_check env (without_claim k p) af = aud_check env p af"
  by (simp add: aud_check_def map_of_without_claim)

lemma jti_check_without:
  "k \<noteq> ''jti'' \<Longrightarrow> jti_check (without_claim k p) af = jti_check p af"
  by (simp add: jti_check_def map_of_without_claim)

lemma notbefore_check_without:
  "k' \<noteq> k \<Longrightarrow> notbefore_check env k' (without_claim k p) af now = notbefore_check env k' p af now"
  by (simp add: notbefore_check_def map_of_without_claim)

lemma exp_check_without:
  "k \<noteq> ''exp'' \<Longrightarrow> exp_check env (without_claim k p) af now = exp_check env p af now"
  by (simp add: exp_check_def map_of_without_claim)

lemma exp_check_removed: "exp_check env (without_claim ''exp'' p) af now = None"
  by (simp add: exp_check_def map_of_without_claim)

text \<open>After step 8 the entry \<^verbatim>\<open>gracePeriod\<close> is a number: the grace period in force.\<close>

lemma gracePeriod_entry:
  "set_default_gracePeriod af ''gracePeriod'' = Some (JNum (gracePeriod af))"
proof (cases "af ''gracePeriod''")
  case None
  then show ?thesis by (simp add: set_default_gracePeriod_def gracePeriod_def)
next
  case (Some v)
  then show ?thesis by (cases v) (simp_all add: set_default_gracePeriod_def gracePeriod_def)
qed

lemma js_plus_less_number:
  "js_plus_less env e (Some (JNum g)) now = js_less (js_add (double_of_real env) e g) now"
  by (simp add: js_plus_less_def)

lemma exp_check_number:
  "map_of p ''exp'' = Some (JNum e) \<Longrightarrow>
   exp_check env p (set_default_gracePeriod af) now
   = (if js_less (js_add (double_of_real env) e (gracePeriod af)) now
      then Some (Inr False) else None)"
  by (simp add: exp_check_def gracePeriod_entry js_plus_less_number)

lemma alg_check_not_True: "alg_check env pHeader acceptField \<noteq> Some (Inr True)"
  by (simp add: alg_check_def split: option.splits sum.splits)

lemma claim_check_not_True: "claim_check env k p af \<noteq> Some (Inr True)"
  by (simp add: claim_check_def split: option.splits sum.splits)

lemma aud_check_not_True: "aud_check env p af \<noteq> Some (Inr True)"
  by (simp add: aud_check_def split: option.splits sum.splits)

lemma exp_check_not_True: "exp_check env p af now \<noteq> Some (Inr True)"
  by (simp add: exp_check_def split: option.splits json.splits)

lemma notbefore_check_not_True: "notbefore_check env k p af now \<noteq> Some (Inr True)"
  by (simp add: notbefore_check_def split: option.splits json.splits)

lemma jti_check_not_True: "jti_check p af \<noteq> Some (Inr True)"
  by (simp add: jti_check_def)

lemmas checks_not_True =
  alg_check_not_True claim_check_not_True aud_check_not_True exp_check_not_True
  notbefore_check_not_True jti_check_not_True

text \<open>The part of \<open>verifyJWT_time\<close> after the expiry check.\<close>

lemma verifyJWT_time_split:
  "fst (verifyJWT_time env sJWT key p af) =
     (case exp_check env p (set_default_gracePeriod af) (verification_time env af) of
        Some r \<Rightarrow> r
      | None \<Rightarrow> fst (verifyJWT_time env sJWT key (without_claim ''exp'' p) af))"
proof (cases "exp_check env p (set_default_gracePeriod af) (verification_time env af)")
  case None
  then show ?thesis
    unfolding verifyJWT_time_def Let_def
    by (simp add: exp_check_removed notbefore_check_without jti_check_without
             cong: option.case_cong)
next
  case (Some r)
  then show ?thesis
    unfolding verifyJWT_time_def Let_def by simp
qed

lemma verifyJWT_time_exp:
  assumes "map_of p ''exp'' = Some (JNum e)"
      and "fst (verifyJWT_time env sJWT key (without_claim ''exp'' p) af) = Inr True"
  shows "fst (verifyJWT_time env sJWT key p af)
         = Inr (\<not> js_less (js_add (double_of_real env) e (gracePeriod af))
                            (verification_time env af))"
  by (subst verifyJWT_time_split)
     (simp add: exp_check_number[OF assms(1)] assms(2))

lemma verifyJWT_checks_reach:
  assumes "fst (verifyJWT_checks env sJWT key pHeader (Some q) (Some af)) = Inr True"
  shows "alg_check env pHeader (Some af) = None \<and> claim_check env ''iss'' q af = None \<and>
         claim_check env ''sub'' q af = None \<and> aud_check env q af = None \<and>
         fst (verifyJWT_time env sJWT key q af) = Inr True"
proof -
  have a: "alg_check env pHeader (Some af) = None"
    using assms alg_check_not_True[of env pHeader "Some af"] unfolding verifyJWT_checks_def
    by (cases "alg_check env pHeader (Some af)") auto
  have i: "claim_check env ''iss'' q af = None"
    using assms claim_check_not_True[of env "''iss''" q af] unfolding verifyJWT_checks_def
    by (cases "claim_check env ''iss'' q af") (auto simp: a)
  have s: "claim_check env ''sub'' q af = None"
    using assms claim_check_not_True[of env "''sub''" q af] unfolding verifyJWT_checks_def
    by (cases "claim_check env ''sub'' q af") (auto simp: a i)
  have u: "aud_check env q af = None"
    using assms aud_check_not_True[of env q af] unfolding verifyJWT_checks_def
    by (cases "aud_check env q af") (auto simp: a i s)
  have "fst (verifyJWT_time env sJWT key q af) = Inr True"
    using assms unfolding verifyJWT_checks_def by (simp add: a i s u)
  then show ?thesis using a i s u by simp
qed

lemma verifyJWT_checks_exp:
  assumes "map_of p ''exp'' = Some (JNum e)"
      and "fst (verifyJWT_checks env sJWT key pHeader (Some (without_claim ''exp'' p)) (Some af)) = Inr True"
  shows "fst (verifyJWT_checks env sJWT key pHeader (Some p) (Some af))
         = Inr (\<not> js_less (js_add (double_of_real env) e (gracePeriod af))
                            (verification_time env af))"
proof -
  from verifyJWT_checks_reach[OF assms(2)]
  have r: "alg_check env pHeader (Some af) = None" "claim_check env ''iss'' p af = None"
     "claim_check env ''sub'' p af = None" "aud_check env p af = None"
     "fst (verifyJWT_time env sJWT key (without_claim ''exp'' p) af) = Inr True"
    by (simp_all add: claim_check_without aud_check_without)
  have "fst (verifyJWT_checks env sJWT key pHeader (Some p) (Some af))
        = fst (verifyJWT_time env sJWT key p af)"
    unfolding verifyJWT_checks_def by (simp add: r)
  then show ?thesis using verifyJWT_time_exp[OF assms(1) r(5)] by simp
qed

lemma verifyJWT_decoded:
  assumes "b64utohex env (js_nth (js_split (CHR ''.'') sJWT) 2) = Inr hSig"
      and "b64utoutf8 env (js_nth (js_split (CHR ''.'') sJWT) 0) = Inr sHead"
      and "b64utoutf8 env (js_nth (js_split (CHR ''.'') sJWT) 1) = Inr sPayload"
  shows "verifyJWT env sJWT key acceptField
         = verifyJWT_checks env sJWT key (readSafeJSONString env sHead)
             (readSafeJSONString env sPayload) acceptField"
  using assms by (simp add: verifyJWT_def Let_def)

text \<open>
  Claim C5: for a token whose payload carries a numeric \<^verbatim>\<open>exp\<close> claim and which passes
  all other checks (the checks of \<^verbatim>\<open>verifyJWT\<close> return \<^verbatim>\<open>true\<close> on the same token when the
  payload is read without its \<^verbatim>\<open>exp\<close>), \<^verbatim>\<open>verifyJWT\<close> returns \<^verbatim>\<open>false\<close> exactly when
  \<open>exp + gracePeriod < verification time\<close>, and \<^verbatim>\<open>true\<close> otherwise. The grace period is
  \<^verbatim>\<open>acceptField.gracePeriod\<close> when that is a number and 0 otherwise; the verification time
  is \<^verbatim>\<open>acceptField.verifyAt\<close> when that is a number and the clock otherwise. The sum and
  the comparison are those of the runtime on doubles: the sum is rounded to a double, and
  a comparison with \<^verbatim>\<open>NaN\<close> is false. Whenever the three numbers are finite and the sum
  \<open>exp + gracePeriod\<close> is itself a double, that is the comparison of the real numbers.
\<close>

theorem verifyJWT_exp_with_gracePeriod:
  assumes sig: "b64utohex env (js_nth (js_split (CHR ''.'') sJWT) 2) = Inr hSig"
      and hd: "b64utoutf8 env (js_nth (js_split (CHR ''.'') sJWT) 0) = Inr sHead"
      and pl: "b64utoutf8 env (js_nth (js_split (CHR ''.'') sJWT) 1) = Inr sPayload"
      and js: "JSON_parse env sPayload = Some (JObj p)"
      and exp: "map_of p ''exp'' = Some (JNum e)"
      and others: "fst (verifyJWT_checks env sJWT key (readSafeJSONString env sHead)
                          (Some (without_claim ''exp'' p)) (Some af)) = Inr True"
  shows "fst (verifyJWT env sJWT key (Some af))
         = Inr (\<not> js_less (js_add (double_of_real env) e (gracePeriod af))
                            (verification_time env af)) \<and>
         (\<forall>x g t. e = Num x \<and> gracePeriod af = Num g \<and> verification_time env af = Num t \<and>
                  double_of_real env (x + g) = Num (x + g) \<longrightarrow>
                  fst (verifyJWT env sJWT key (Some af)) = Inr (\<not> (x + g < t)))"
proof -
  have r: "fst (verifyJWT env sJWT key (Some af))
           = Inr (\<not> js_less (js_add (double_of_real env) e (gracePeriod af))
                              (verification_time env af))"
    using verifyJWT_decoded[OF sig hd pl] readSafeJSONString_JObj[OF js]
          verifyJWT_checks_exp[OF exp others]
    by simp
  show ?thesis
  proof (intro conjI allI impI)
    show "fst (verifyJWT env sJWT key (Some af))
           = Inr (\<not> js_less (js_add (double_of_real env) e (gracePeriod af))
                              (verification_time env af))"
      by (rule r)
  next
    fix x g t
    assume "e = Num x \<and> gracePeriod af = Num g \<and> verification_time env af = Num t \<and>
            double_of_real env (x + g) = Num (x + g)"
    then show "fst (verifyJWT env sJWT key (Some af)) = Inr (\<not> (x + g < t))"
      using r by simp
  qed
qed

lemmas example_checks_simps =
  example_env_def verifyJWT_checks_def verifyJWT_time_def alg_check_def claim_check_def
  aud_check_def exp_check_def notbefore_check_def jti_check_def verification_time_def
  set_default_gracePeriod_def gracePeriod_def without_claim_def readSafeJSONString_def
  verify_def verify_alg_def verify_dispatch_def jwsalg2sigalg_get_def jwsalg2sigalg_def
  js_join_elem_def js_nth_def js_plus_less_def js_less_minus_def js_sub_def Let_def

text \<open>
  The instance of the claim: at the time 1000 a token with \<open>exp = 990\<close> is refused with no
  grace period and accepted with a grace period of 20. And an instance where the sum is
  rounded: with \<open>exp = 2 ^ 53 + 2\<close> and a grace period of 1 the sum is the double
  \<open>2 ^ 53 + 4\<close>, which is not less than the verification time \<open>2 ^ 53 + 4\<close>, and the token
  is accepted (the exact sum \<open>2 ^ 53 + 3\<close> is less).
\<close>

theorem verifyJWT_exp_witness:
  "fst (verifyJWT (example_env [(''alg'', JStr ''HS256'')] [(''exp'', JNum (Num 990))] 1000) ''h.p.s''
          (KObject ''password'') (Some [''alg'' \<mapsto> JArr [JStr ''HS256'']])) = Inr False \<and>
   fst (verifyJWT (example_env [(''alg'', JStr ''HS256'')] [(''exp'', JNum (Num 990))] 1000) ''h.p.s''
          (KObject ''password'')
          (Some [''alg'' \<mapsto> JArr [JStr ''HS256''], ''gracePeriod'' \<mapsto> JNum (Num 20)])) = Inr True \<and>
   fst (verifyJWT (example_env_rounding [(''alg'', JStr ''HS256'')]
                     [(''exp'', JNum (Num 9007199254740994))] 1000) ''h.p.s''
          (KObject ''password'')
          (Some [''alg'' \<mapsto> JArr [JStr ''HS256''], ''gracePeriod'' \<mapsto> JNum (Num 1),
                 ''verifyAt'' \<mapsto> JNum (Num 9007199254740996)])) = Inr True"
proof -
  let ?R = "example_env_rounding [(''alg'', JStr ''HS256'')]
              [(''exp'', JNum (Num 9007199254740994))] 1000"
  let ?afR = "[''alg'' \<mapsto> JArr [JStr ''HS256''], ''gracePeriod'' \<mapsto> JNum (Num 1),
               ''verifyAt'' \<mapsto> JNum (Num 9007199254740996)]"
  have r1: "b64utohex ?R (js_nth (js_split (CHR ''.'') ''h.p.s'') 2) = Inr ''s''"
    by (simp add: example_env_rounding_def example_env_def js_nth_def)
  have r2: "b64utoutf8 ?R (js_nth (js_split (CHR ''.'') ''h.p.s'') 0) = Inr ''h''"
    by (simp add: example_env_rounding_def example_env_def js_nth_def)
  have r3: "b64utoutf8 ?R (js_nth (js_split (CHR ''.'') ''h.p.s'') 1) = Inr ''p''"
    by (simp add: example_env_rounding_def example_env_def js_nth_def)
  have r4: "JSON_parse ?R ''p'' = Some (JObj [(''exp'', JNum (Num 9007199254740994))])"
    by (simp add: example_env_rounding_def example_env_def)
  have r5: "map_of [(''exp'', JNum (Num 9007199254740994))] ''exp''
            = Some (JNum (Num 9007199254740994))"
    by simp
  have r6: "fst (verifyJWT_checks ?R ''h.p.s'' (KObject ''password'') (readSafeJSONString ?R ''h'')
                  (Some (without_claim ''exp'' [(''exp'', JNum (Num 9007199254740994))]))
                  (Some ?afR)) = Inr True"
    by (simp add: example_env_rounding_def example_checks_simps)
  have c: "fst (verifyJWT ?R ''h.p.s'' (KObject ''password'') (Some ?afR)) = Inr True"
    using verifyJWT_exp_with_gracePeriod [OF r1 r2 r3 r4 r5 r6]
    by (simp add: gracePeriod_def verification_time_def example_env_rounding_def example_env_def)
  let ?E = "example_env [(''alg'', JStr ''HS256'')] [(''exp'', JNum (Num 990))] 1000"
  let ?af0 = "[''alg'' \<mapsto> JArr [JStr ''HS256'']]"
  let ?af20 = "[''alg'' \<mapsto> JArr [JStr ''HS256''], ''gracePeriod'' \<mapsto> JNum (Num 20)]"
  have 1: "b64utohex ?E (js_nth (js_split (CHR ''.'') ''h.p.s'') 2) = Inr ''s''"
    by (simp add: example_env_def js_nth_def)
  have 2: "b64utoutf8 ?E (js_nth (js_split (CHR ''.'') ''h.p.s'') 0) = Inr ''h''"
    by (simp add: example_env_def js_nth_def)
  have 3: "b64utoutf8 ?E (js_nth (js_split (CHR ''.'') ''h.p.s'') 1) = Inr ''p''"
    by (simp add: example_env_def js_nth_def)
  have 4: "JSON_parse ?E ''p'' = Some (JObj [(''exp'', JNum (Num 990))])"
    by (simp add: example_env_def)
  have 5: "map_of [(''exp'', JNum (Num 990))] ''exp'' = Some (JNum (Num 990))" by simp
  have 6: "fst (verifyJWT_checks ?E ''h.p.s'' (KObject ''password'') (readSafeJSONString ?E ''h'')
                  (Some (without_claim ''exp'' [(''exp'', JNum (Num 990))])) (Some ?af0)) = Inr True"
    by (simp add: example_checks_simps)
  have 7: "fst (verifyJWT_checks ?E ''h.p.s'' (KObject ''password'') (readSafeJSONString ?E ''h'')
                  (Some (without_claim ''exp'' [(''exp'', JNum (Num 990))])) (Some ?af20)) = Inr True"
    by (simp add: example_checks_simps)
  have a: "fst (verifyJWT ?E ''h.p.s'' (KObject ''password'') (Some ?af0)) = Inr False"
    using verifyJWT_exp_with_gracePeriod [OF 1 2 3 4 5 6]
    by (simp add: gracePeriod_def verification_time_def example_env_def)
  have b: "fst (verifyJWT ?E ''h.p.s'' (KObject ''password'') (Some ?af20)) = Inr True"
    using verifyJWT_exp_with_gracePeriod [OF 1 2 3 4 5 7]
    by (simp add: gracePeriod_def verification_time_def example_env_def)
  show ?thesis using a b c by blast
qed

lemma exp_check_nonnumber:
  "map_of p ''exp'' = Some v \<Longrightarrow> js_typeof (Some v) \<noteq> ''number'' \<Longrightarrow> exp_check env p af now = None"
  by (cases v) (simp_all add: exp_check_def)

lemma notbefore_check_nonnumber:
  "map_of p k = Some v \<Longrightarrow> js_typeof (Some v) \<noteq> ''number'' \<Longrightarrow>
   notbefore_check env k p af now = None"
  by (cases v) (simp_all add: notbefore_check_def)

lemma notbefore_check_removed: "notbefore_check env k (without_claim k p) af now = None"
  by (simp add: notbefore_check_def map_of_without_claim)

lemma verifyJWT_time_without:
  assumes k: "k = ''exp'' \<or> k = ''nbf'' \<or> k = ''iat''"
      and v: "map_of p k = Some v"
      and nn: "js_typeof (Some v) \<noteq> ''number''"
  shows "verifyJWT_time env sJWT key (without_claim k p) af = verifyJWT_time env sJWT key p af"
proof -
  have e: "exp_check env (without_claim k p) a n = exp_check env p a n" for a n
    using exp_check_nonnumber[of p v env a n] v nn
    by (cases "k = ''exp''") (simp_all add: exp_check_removed exp_check_without)
  have b: "notbefore_check env ''nbf'' (without_claim k p) a n = notbefore_check env ''nbf'' p a n"
    for a n
    using notbefore_check_nonnumber[of p k v env a n] v nn
    by (cases "k = ''nbf''") (simp_all add: notbefore_check_removed notbefore_check_without)
  have i: "notbefore_check env ''iat'' (without_claim k p) a n = notbefore_check env ''iat'' p a n"
    for a n
    using notbefore_check_nonnumber[of p k v env a n] v nn
    by (cases "k = ''iat''") (simp_all add: notbefore_check_removed notbefore_check_without)
  have j: "jti_check (without_claim k p) a = jti_check p a" for a
    using k by (auto simp: jti_check_without)
  show ?thesis
    unfolding verifyJWT_time_def Let_def e b i j ..
qed

lemma verifyJWT_checks_without:
  assumes k: "k = ''exp'' \<or> k = ''nbf'' \<or> k = ''iat''"
      and v: "map_of p k = Some v"
      and nn: "js_typeof (Some v) \<noteq> ''number''"
  shows "verifyJWT_checks env sJWT key pHeader (Some (without_claim k p)) acceptField
         = verifyJWT_checks env sJWT key pHeader (Some p) acceptField"
proof -
  have c: "claim_check env ''iss'' (without_claim k p) a = claim_check env ''iss'' p a"
          "claim_check env ''sub'' (without_claim k p) a = claim_check env ''sub'' p a"
          "aud_check env (without_claim k p) a = aud_check env p a" for a
    using k by (auto simp: claim_check_without aud_check_without)
  show ?thesis
    unfolding verifyJWT_checks_def
    by (simp add: c verifyJWT_time_without[OF k v nn] cong: option.case_cong)
qed

text \<open>
  Claim C9: when the payload carries an \<^verbatim>\<open>exp\<close>, \<^verbatim>\<open>nbf\<close> or \<^verbatim>\<open>iat\<close> claim whose value is
  present but not a number, \<^verbatim>\<open>verifyJWT\<close> skips that time check entirely: the call
  behaves as the checks do on the payload without that claim, and the check of that claim
  falls through for every verification time and every \<^verbatim>\<open>acceptField\<close> (so for every
  grace period), whatever the arithmetic of the runtime.
\<close>

theorem verifyJWT_nonnumeric_time_claim_skipped:
  assumes sig: "b64utohex env (js_nth (js_split (CHR ''.'') sJWT) 2) = Inr hSig"
      and hd: "b64utoutf8 env (js_nth (js_split (CHR ''.'') sJWT) 0) = Inr sHead"
      and pl: "b64utoutf8 env (js_nth (js_split (CHR ''.'') sJWT) 1) = Inr sPayload"
      and js: "JSON_parse env sPayload = Some (JObj p)"
      and k: "k = ''exp'' \<or> k = ''nbf'' \<or> k = ''iat''"
      and v: "map_of p k = Some v"
      and nn: "js_typeof (Some v) \<noteq> ''number''"
  shows "verifyJWT env sJWT key acceptField
           = verifyJWT_checks env sJWT key (readSafeJSONString env sHead)
               (Some (without_claim k p)) acceptField \<and>
         (\<forall>E af now. if k = ''exp'' then exp_check E p af now = None
                     else notbefore_check E k p af now = None)"
proof
  show "verifyJWT env sJWT key acceptField
           = verifyJWT_checks env sJWT key (readSafeJSONString env sHead)
               (Some (without_claim k p)) acceptField"
    using verifyJWT_decoded[OF sig hd pl] readSafeJSONString_JObj[OF js]
          verifyJWT_checks_without[OF k v nn]
    by simp
  show "\<forall>E af now. if k = ''exp'' then exp_check E p af now = None
                   else notbefore_check E k p af now = None"
    using exp_check_nonnumber[of p v] notbefore_check_nonnumber[of p k v] v nn by auto
qed

theorem verifyJWT_nonnumeric_exp_witness:
  "verifyJWT (example_env [(''alg'', JStr ''HS256'')] [(''exp'', JStr ''990'')] 1000) ''h.p.s''
      (KObject ''password'') (Some [''alg'' \<mapsto> JArr [JStr ''HS256'']])
   = verifyJWT_checks (example_env [(''alg'', JStr ''HS256'')] [(''exp'', JStr ''990'')] 1000) ''h.p.s''
      (KObject ''password'')
      (readSafeJSONString (example_env [(''alg'', JStr ''HS256'')] [(''exp'', JStr ''990'')] 1000) ''h'')
      (Some (without_claim ''exp'' [(''exp'', JStr ''990'')])) (Some [''alg'' \<mapsto> JArr [JStr ''HS256'']]) \<and>
   exp_check (example_env [(''alg'', JStr ''HS256'')] [(''exp'', JStr ''990'')] 1000)
      [(''exp'', JStr ''990'')] [''alg'' \<mapsto> JArr [JStr ''HS256'']] (Num 1000) = None \<and>
   fst (verifyJWT (example_env [(''alg'', JStr ''HS256'')] [(''exp'', JStr ''990'')] 1000) ''h.p.s''
      (KObject ''password'') (Some [''alg'' \<mapsto> JArr [JStr ''HS256'']])) = Inr True"
proof -
  let ?E = "example_env [(''alg'', JStr ''HS256'')] [(''exp'', JStr ''990'')] 1000"
  let ?af = "[''alg'' \<mapsto> JArr [JStr ''HS256'']]"
  have 1: "b64utohex ?E (js_nth (js_split (CHR ''.'') ''h.p.s'') 2) = Inr ''s''"
    by (simp add: example_env_def js_nth_def)
  have 2: "b64utoutf8 ?E (js_nth (js_split (CHR ''.'') ''h.p.s'') 0) = Inr ''h''"
    by (simp add: example_env_def js_nth_def)
  have 3: "b64utoutf8 ?E (js_nth (js_split (CHR ''.'') ''h.p.s'') 1) = Inr ''p''"
    by (simp add: example_env_def js_nth_def)
  have 4: "JSON_parse ?E ''p'' = Some (JObj [(''exp'', JStr ''990'')])"
    by (simp add: example_env_def)
  have 5: "''exp'' = ''exp'' \<or> ''exp'' = ''nbf'' \<or> ''exp'' = ''iat''" by simp
  have 6: "map_of [(''exp'', JStr ''990'')] ''exp'' = Some (JStr ''990'')" by simp
  have 7: "js_typeof (Some (JStr ''990'')) \<noteq> ''number''" by simp
  note t = verifyJWT_nonnumeric_time_claim_skipped
             [OF 1 2 3 4 5 6 7, of "KObject ''password''" "Some ?af"]
  have a: "verifyJWT ?E ''h.p.s'' (KObject ''password'') (Some ?af)
           = verifyJWT_checks ?E ''h.p.s'' (KObject ''password'') (readSafeJSONString ?E ''h'')
               (Some (without_claim ''exp'' [(''exp'', JStr ''990'')])) (Some ?af)"
    using t by (rule conjunct1)
  have b: "exp_check ?E [(''exp'', JStr ''990'')] ?af (Num 1000) = None"
    using t by simp
  have c: "fst (verifyJWT_checks ?E ''h.p.s'' (KObject ''password'') (readSafeJSONString ?E ''h'')
               (Some (without_claim ''exp'' [(''exp'', JStr ''990'')])) (Some ?af)) = Inr True"
    by (simp add: example_checks_simps)
  show ?thesis using a b c by simp
qed

lemma snd_verifyJWT_time:
  "snd (verifyJWT_time env sJWT key p af) = Some (set_default_gracePeriod af)"
  unfolding verifyJWT_time_def Let_def
  by (simp split: option.splits sum.splits)

lemma snd_verifyJWT_checks:
  "snd (verifyJWT_checks env sJWT key pHeader pPayload (Some af))
   = Some (if alg_check env pHeader (Some af) = None \<and>
              (case pPayload of
                 None \<Rightarrow> False
               | Some p \<Rightarrow> claim_check env ''iss'' p af = None \<and>
                           claim_check env ''sub'' p af = None \<and>
                           aud_check env p af = None)
           then set_default_gracePeriod af else af)"
  unfolding verifyJWT_checks_def
  by (simp add: snd_verifyJWT_time split: option.splits)

lemma snd_verifyJWT:
  "snd (verifyJWT env sJWT key (Some af))
   = Some (if reaches_step8 env sJWT af then set_default_gracePeriod af else af)"
  unfolding verifyJWT_def reaches_step8_def Let_def
  by (simp add: snd_verifyJWT_checks split: sum.splits option.splits)

text \<open>
  Claim C10, as the code has it: \<^verbatim>\<open>verifyJWT\<close> assigns to the caller's \<^verbatim>\<open>acceptField\<close>.
  When \<^verbatim>\<open>gracePeriod\<close> is absent or not a number and the call reaches the time checks (the
  three segments decode, the payload is an object, and none of the algorithm, issuer,
  subject and audience checks returns or throws), the dictionary after the call is the one
  before with \<^verbatim>\<open>gracePeriod\<close> set to the number 0. In every other case, so in every call
  that leaves before the time checks, the dictionary after the call is the one before. So
  no entry other than \<^verbatim>\<open>gracePeriod\<close> is ever modified.
\<close>

theorem verifyJWT_acceptField_gracePeriod:
  "snd (verifyJWT env sJWT key (Some af))
   = Some (if reaches_step8 env sJWT af \<and>
              (af ''gracePeriod'' = None \<or> js_typeof (af ''gracePeriod'') \<noteq> ''number'')
           then af(''gracePeriod'' \<mapsto> JNum (Num 0))
           else af) \<and>
   (\<forall>af'. snd (verifyJWT env sJWT key (Some af)) = Some af' \<longrightarrow>
           (\<forall>k. k \<noteq> ''gracePeriod'' \<longrightarrow> af' k = af k))"
proof -
  have e: "snd (verifyJWT env sJWT key (Some af))
           = Some (if reaches_step8 env sJWT af \<and>
                      (af ''gracePeriod'' = None \<or> js_typeof (af ''gracePeriod'') \<noteq> ''number'')
                   then af(''gracePeriod'' \<mapsto> JNum (Num 0))
                   else af)"
    by (simp add: snd_verifyJWT set_default_gracePeriod_def)
  show ?thesis
  proof (intro conjI allI impI)
    show "snd (verifyJWT env sJWT key (Some af))
           = Some (if reaches_step8 env sJWT af \<and>
                      (af ''gracePeriod'' = None \<or> js_typeof (af ''gracePeriod'') \<noteq> ''number'')
                   then af(''gracePeriod'' \<mapsto> JNum (Num 0))
                   else af)"
      by (rule e)
  next
    fix af' k
    assume "snd (verifyJWT env sJWT key (Some af)) = Some af'" and "k \<noteq> ''gracePeriod''"
    then show "af' k = af k"
      unfolding e by (auto split: if_splits)
  qed
qed

text \<open>
  Two calls with a dictionary without \<^verbatim>\<open>gracePeriod\<close>. The first reaches the time checks,
  and the dictionary comes back with \<^verbatim>\<open>gracePeriod\<close> set to 0. In the second the issuer of
  the token is not among the accepted ones: the call returns \<^verbatim>\<open>false\<close> in step 5 and the
  dictionary comes back as it was.
\<close>

theorem verifyJWT_acceptField_witness:
  "reaches_step8 (example_env [(''alg'', JStr ''HS256'')] [] 1000) ''h.p.s''
     [''alg'' \<mapsto> JArr [JStr ''HS256''], ''verifyAt'' \<mapsto> JNum (Num 5)] \<and>
   snd (verifyJWT (example_env [(''alg'', JStr ''HS256'')] [] 1000) ''h.p.s'' (KObject ''password'')
          (Some [''alg'' \<mapsto> JArr [JStr ''HS256''], ''verifyAt'' \<mapsto> JNum (Num 5)]))
   = Some [''alg'' \<mapsto> JArr [JStr ''HS256''], ''verifyAt'' \<mapsto> JNum (Num 5),
           ''gracePeriod'' \<mapsto> JNum (Num 0)] \<and>
   \<not> reaches_step8 (example_env [(''alg'', JStr ''HS256'')] [(''iss'', JStr ''mallory'')] 1000)
       ''h.p.s'' [''alg'' \<mapsto> JArr [JStr ''HS256''], ''iss'' \<mapsto> JArr [JStr ''alice'']] \<and>
   verifyJWT (example_env [(''alg'', JStr ''HS256'')] [(''iss'', JStr ''mallory'')] 1000) ''h.p.s''
       (KObject ''password'')
       (Some [''alg'' \<mapsto> JArr [JStr ''HS256''], ''iss'' \<mapsto> JArr [JStr ''alice'']])
   = (Inr False, Some [''alg'' \<mapsto> JArr [JStr ''HS256''], ''iss'' \<mapsto> JArr [JStr ''alice'']])"
proof -
  let ?E = "example_env [(''alg'', JStr ''HS256'')] [] 1000"
  let ?af = "[''alg'' \<mapsto> JArr [JStr ''HS256''], ''verifyAt'' \<mapsto> JNum (Num 5)]"
  let ?F = "example_env [(''alg'', JStr ''HS256'')] [(''iss'', JStr ''mallory'')] 1000"
  let ?ag = "[''alg'' \<mapsto> JArr [JStr ''HS256''], ''iss'' \<mapsto> JArr [JStr ''alice'']]"
  have h: "reaches_step8 ?E ''h.p.s'' ?af"
    by (simp add: reaches_step8_def example_checks_simps)
  have g: "?af ''gracePeriod'' = None" by simp
  from verifyJWT_acceptField_gracePeriod [of ?E "''h.p.s''" "KObject ''password''" ?af] h g
  have a: "snd (verifyJWT ?E ''h.p.s'' (KObject ''password'') (Some ?af))
        = Some (?af(''gracePeriod'' \<mapsto> JNum (Num 0)))"
    by simp
  have n: "\<not> reaches_step8 ?F ''h.p.s'' ?ag"
    by (simp add: reaches_step8_def example_checks_simps)
  from verifyJWT_acceptField_gracePeriod [of ?F "''h.p.s''" "KObject ''password''" ?ag] n
  have b: "snd (verifyJWT ?F ''h.p.s'' (KObject ''password'') (Some ?ag)) = Some ?ag"
    by simp
  have c: "fst (verifyJWT ?F ''h.p.s'' (KObject ''password'') (Some ?ag)) = Inr False"
    by (simp add: verifyJWT_def example_checks_simps)
  have d: "verifyJWT ?F ''h.p.s'' (KObject ''password'') (Some ?ag) = (Inr False, Some ?ag)"
    using b c by (simp add: prod_eq_iff)
  show ?thesis using h a n d by simp
qed

text \<open>
  The claim C10 said that after any call with an absent \<^verbatim>\<open>gracePeriod\<close> the dictionary has
  it set. A call that returns in step 4, here because the header algorithm is not in
  \<^verbatim>\<open>acceptField.alg\<close>, leaves the dictionary as it was.
\<close>

theorem verifyJWT_early_return_counterexample:
  "[''alg'' \<mapsto> JArr [JStr ''RS256'']] ''gracePeriod'' = None \<and>
   verifyJWT (example_env [(''alg'', JStr ''HS256'')] [] 1000) ''h.p.s'' (KObject ''password'')
          (Some [''alg'' \<mapsto> JArr [JStr ''RS256'']])
   = (Inr False, Some [''alg'' \<mapsto> JArr [JStr ''RS256'']])"
  by (simp add: verifyJWT_def example_checks_simps)

section \<open>Distinguished names: oneline to LDAP and back\<close>

lemma js_split_nonempty: "js_split c s \<noteq> []"
  by (induction s) (auto split: list.splits)

lemma js_split_no_sep: "x \<in> set (js_split c s) \<Longrightarrow> c \<notin> set x"
  by (induction s arbitrary: x) (auto split: list.splits if_splits)

lemma js_join_split: "js_join [c] (js_split c s) = s"
proof (induction s)
  case Nil
  then show ?case by simp
next
  case (Cons x xs)
  show ?case
  proof (cases "x = c")
    case True
    then show ?thesis using Cons js_split_nonempty[of c xs]
      by (cases "js_split c xs") auto
  next
    case False
    then show ?thesis using Cons js_split_nonempty[of c xs]
      by (cases "js_split c xs"; cases "tl (js_split c xs)") auto
  qed
qed

lemma js_split_nosep: "c \<notin> set s \<Longrightarrow> js_split c s = [s]"
  by (induction s) auto

lemma js_split_append:
  "c \<notin> set p \<Longrightarrow> js_split c (p @ c # q) = p # js_split c q"
  by (induction p) auto


lemma js_split_app: "js_split c (p @ c # q) = js_split c p @ js_split c q"
proof (induction p)
  case Nil
  then show ?case by simp
next
  case (Cons x p)
  then show ?case using js_split_nonempty[of c p]
    by (cases "js_split c p") auto
qed

lemma js_split_join:
  "js_split c (js_join [c] (x # xs)) = concat (map (js_split c) (x # xs))"
proof (induction xs arbitrary: x)
  case Nil
  then show ?case by simp
next
  case (Cons y ys)
  have "js_join [c] (x # y # ys) = x @ c # js_join [c] (y # ys)" by simp
  then show ?case using Cons[of y] by (simp add: js_split_app)
qed

lemma replace_first_absent: "c \<notin> set s \<Longrightarrow> replace_first c r s = s"
  by (induction s) auto

lemma replace_first_present:
  "c \<notin> set p \<Longrightarrow> replace_first c r (p @ c # q) = p @ r @ q"
  by (induction p) auto

lemma replace_all_absent: "CHR '','' \<notin> set s \<Longrightarrow> replace_all_bs_comma s = s"
  by (induction s rule: replace_all_bs_comma.induct) auto

lemma replace_all_merge:
  "CHR '','' \<notin> set p \<Longrightarrow> CHR '','' \<notin> set q \<Longrightarrow>
   replace_all_bs_comma (p @ bslash # CHR '','' # q) = p @ CHR '','' # q"
proof (induction p rule: replace_all_bs_comma.induct)
  case (1 x y zs)
  then show ?case by (auto simp: replace_all_absent)
next
  case (2 x)
  then show ?case by (auto simp: replace_all_absent bslash_def)
next
  case 3
  then show ?case by (simp add: replace_all_absent)
qed

lemma comma_count_cases:
  assumes "comma_count s \<le> 1"
  shows "CHR '','' \<notin> set s \<or> (\<exists>p q. s = p @ CHR '','' # q \<and> CHR '','' \<notin> set p \<and> CHR '','' \<notin> set q)"
proof (cases "CHR '','' \<in> set s")
  case False
  then show ?thesis by simp
next
  case True
  then obtain p q where pq: "s = p @ CHR '','' # q" "CHR '','' \<notin> set p"
    by (meson split_list_first)
  with assms have "length (filter (\<lambda>ch. ch = CHR '','') q) = 0"
    by (simp add: comma_count_def filter_empty_conv[THEN iffD2])
  then have "CHR '','' \<notin> set q"
    by (auto simp: filter_empty_conv)
  with pq show ?thesis by blast
qed

lemma ldap_join_loop_push:
  "ldap_join_loop (item # a) a2 False = ldap_join_loop a (a2 @ [item]) (ends_with_bs item)"
  by simp

lemma ldap_join_loop_merge:
  "ldap_join_loop (item # a) (xs @ [l]) True
   = ldap_join_loop a (xs @ [replace_all_bs_comma (l @ '','' @ item)]) (ends_with_bs item)"
  by (simp add: Let_def)

lemma ldap_join_loop_seg:
  assumes "comma_count y \<le> 1"
  shows "ldap_join_loop (js_split (CHR '','') (replace_first (CHR '','') [bslash, CHR '',''] y) @ later) a2 False
         = ldap_join_loop later (a2 @ [y]) (ends_with_bs y)"
proof -
  from comma_count_cases[OF assms] show ?thesis
  proof
    assume "CHR '','' \<notin> set y"
    then show ?thesis by (simp add: replace_first_absent js_split_nosep)
  next
    assume "\<exists>p q. y = p @ CHR '','' # q \<and> CHR '','' \<notin> set p \<and> CHR '','' \<notin> set q"
    then obtain p q where y: "y = p @ CHR '','' # q" and p: "CHR '','' \<notin> set p" and q: "CHR '','' \<notin> set q"
      by blast
    have r: "replace_first (CHR '','') [bslash, CHR '',''] y = (p @ [bslash]) @ CHR '','' # q"
      using p by (simp add: y replace_first_present)
    have pb: "CHR '','' \<notin> set (p @ [bslash])" using p by (simp add: bslash_def)
    have sp: "js_split (CHR '','') (replace_first (CHR '','') [bslash, CHR '',''] y) = [p @ [bslash], q]"
      unfolding r js_split_app using js_split_nosep[OF pb] js_split_nosep[OF q] by simp
    have e: "ends_with_bs y = ends_with_bs q"
      by (auto simp: y ends_with_bs_def bslash_def)
    have pe: "ends_with_bs (p @ [bslash])" by (simp add: ends_with_bs_def)
    have m: "replace_all_bs_comma ((p @ [bslash]) @ '','' @ q) = y"
      using replace_all_merge[OF p q] by (simp add: y)
    have "ldap_join_loop ([p @ [bslash], q] @ later) a2 False
          = ldap_join_loop (q # later) (a2 @ [p @ [bslash]]) True"
      using pe by (simp only: ldap_join_loop_push append.simps)
    also have "\<dots> = ldap_join_loop later (a2 @ [y]) (ends_with_bs q)"
      by (simp only: ldap_join_loop_merge m)
    finally show ?thesis by (simp only: sp e)
  qed
qed

lemma ldap_join_loop_segs:
  assumes "\<forall>y \<in> set ys. comma_count y \<le> 1" and "\<forall>y \<in> set ys. \<not> ends_with_bs y"
  shows "ldap_join_loop (concat (map (\<lambda>y. js_split (CHR '','') (replace_first (CHR '','') [bslash, CHR '',''] y)) ys) @ later) a2 False
         = ldap_join_loop later (a2 @ ys) False"
  using assms
proof (induction ys arbitrary: a2)
  case Nil
  then show ?case by simp
next
  case (Cons y ys)
  then show ?case by (simp add: ldap_join_loop_seg)
qed


lemma ldap_join_loop_rev:
  assumes c: "\<forall>seg \<in> set (s0 # ss). comma_count seg \<le> 1"
      and b: "\<forall>seg \<in> set ss. \<not> ends_with_bs seg"
  shows "ldap_join_loop (js_split (CHR '','')
            (js_join '','' (map (replace_first (CHR '','') [bslash, CHR '','']) (rev (s0 # ss))))) [] False
         = rev (s0 # ss)"
proof -
  let ?esc = "replace_first (CHR '','') [bslash, CHR '','']"
  let ?items = "\<lambda>y. js_split (CHR '','') (?esc y)"
  obtain z zs where z: "map ?esc (rev (s0 # ss)) = z # zs"
    by (cases "map ?esc (rev (s0 # ss))") auto
  have "js_split (CHR '','') (js_join '','' (map ?esc (rev (s0 # ss))))
        = concat (map (js_split (CHR '','')) (map ?esc (rev (s0 # ss))))"
    unfolding z by (rule js_split_join)
  also have "\<dots> = concat (map ?items (rev ss)) @ (?items s0 @ [])"
    by (simp add: comp_def)
  finally have sp: "js_split (CHR '','') (js_join '','' (map ?esc (rev (s0 # ss))))
        = concat (map ?items (rev ss)) @ (?items s0 @ [])" .
  have "ldap_join_loop (concat (map ?items (rev ss)) @ (?items s0 @ [])) [] False
        = ldap_join_loop (?items s0 @ []) ([] @ rev ss) False"
    using c b by (intro ldap_join_loop_segs) auto
  also have "\<dots> = ldap_join_loop [] (([] @ rev ss) @ [s0]) (ends_with_bs s0)"
    using c by (intro ldap_join_loop_seg) auto
  also have "\<dots> = rev (s0 # ss)" by simp
  finally show ?thesis by (simp only: sp)
qed

text \<open>
  Claim C7, as the code has it: for every oneline distinguished-name string that starts with
  \<open>/\<close>, in which every component between slashes contains at most one comma and no
  component after the first ends with a backslash, \<open>ldapToOneline(onelineToLDAP(dn))\<close> is
  \<open>dn\<close> again. (The components are what \<^verbatim>\<open>onelineToLDAP\<close> splits the string into; they
  contain no slash.)
\<close>

theorem x500_oneline_ldap_roundtrip:
  assumes dn: "dn = CHR ''/'' # rest"
      and c: "\<forall>seg \<in> set (js_split (CHR ''/'') rest). comma_count seg \<le> 1"
      and b: "\<forall>seg \<in> set (tl (js_split (CHR ''/'') rest)). \<not> ends_with_bs seg"
  shows "\<exists>l. onelineToLDAP dn = Inr l \<and> ldapToOneline l = dn"
proof -
  let ?esc = "replace_first (CHR '','') [bslash, CHR '','']"
  obtain s0 ss where segs: "js_split (CHR ''/'') rest = s0 # ss"
    using js_split_nonempty[of "CHR ''/''" rest] by (cases "js_split (CHR ''/'') rest") auto
  define l where "l = js_join '','' (map ?esc (rev (s0 # ss)))"
  have o: "onelineToLDAP dn = Inr l"
    by (simp add: onelineToLDAP_def dn segs l_def)
  have loop: "ldap_join_loop (js_split (CHR '','') l) [] False = rev (s0 # ss)"
    unfolding l_def using c b by (intro ldap_join_loop_rev) (simp_all add: segs)
  have noslash: "map (replace_first (CHR ''/'') [bslash, CHR ''/'']) (rev (s0 # ss)) = rev (s0 # ss)"
  proof (rule map_idI)
    fix x assume "x \<in> set (rev (s0 # ss))"
    then have "x \<in> set (js_split (CHR ''/'') rest)" by (simp add: segs)
    then have "CHR ''/'' \<notin> set x" by (rule js_split_no_sep)
    then show "replace_first (CHR ''/'') [bslash, CHR ''/''] x = x"
      by (rule replace_first_absent)
  qed
  have "ldapToOneline l = ''/'' @ js_join ''/'' (rev (rev (s0 # ss)))"
    unfolding ldapToOneline_def Let_def loop noslash ..
  also have "\<dots> = ''/'' @ js_join ''/'' (s0 # ss)"
    by (simp only: rev_rev_ident)
  also have "\<dots> = dn"
    using js_join_split[of "CHR ''/''" rest] by (simp add: segs dn del: js_join.simps)
  finally show ?thesis using o by blast
qed

theorem x500_oneline_ldap_roundtrip_witness:
  "onelineToLDAP ''/C=US/O=a,a'' = Inr (''O=a'' @ [bslash] @ '',a,C=US'') \<and>
   ldapToOneline (''O=a'' @ [bslash] @ '',a,C=US'') = ''/C=US/O=a,a''"
proof -
  have 1: "''/C=US/O=a,a'' = CHR ''/'' # ''C=US/O=a,a''" by simp
  have 2: "\<forall>seg \<in> set (js_split (CHR ''/'') ''C=US/O=a,a''). comma_count seg \<le> 1"
    by (simp add: comma_count_def)
  have 3: "\<forall>seg \<in> set (tl (js_split (CHR ''/'') ''C=US/O=a,a'')). \<not> ends_with_bs seg"
    by (simp add: ends_with_bs_def bslash_def)
  from x500_oneline_ldap_roundtrip [OF 1 2 3]
  obtain l where l: "onelineToLDAP ''/C=US/O=a,a'' = Inr l" "ldapToOneline l = ''/C=US/O=a,a''"
    by blast
  have "onelineToLDAP ''/C=US/O=a,a'' = Inr (''O=a'' @ [bslash] @ '',a,C=US'')"
    by (simp add: onelineToLDAP_def)
  with l show ?thesis by simp
qed

text \<open>
  The claim C7 asked only that the attribute values hold no unescaped \<open>+\<close>, \<open>/\<close> or
  \<open>,\<close>. It fails for a value that ends with a backslash, and for a value with two escaped
  commas: the conversion back gives a different string.
\<close>

theorem x500_oneline_ldap_roundtrip_counterexample:
  "all_escaped ''+/,'' (''x'' @ [bslash]) \<and>
   onelineToLDAP (''/C=US/O=x'' @ [bslash]) = Inr (''O=x'' @ [bslash] @ '',C=US'') \<and>
   ldapToOneline (''O=x'' @ [bslash] @ '',C=US'') = ''/O=x,C=US'' \<and>
   ''/O=x,C=US'' \<noteq> ''/C=US/O=x'' @ [bslash] \<and>
   all_escaped ''+/,'' (''a'' @ [bslash] @ '',b'' @ [bslash] @ '',c'') \<and>
   onelineToLDAP (''/O=a'' @ [bslash] @ '',b'' @ [bslash] @ '',c'')
     = Inr (''O=a'' @ [bslash, bslash] @ '',b'' @ [bslash] @ '',c'') \<and>
   ldapToOneline (''O=a'' @ [bslash, bslash] @ '',b'' @ [bslash] @ '',c'') = ''/O=a,b,c'' \<and>
   ''/O=a,b,c'' \<noteq> ''/O=a'' @ [bslash] @ '',b'' @ [bslash] @ '',c''"
  by (simp add: onelineToLDAP_def ldapToOneline_def ends_with_bs_def bslash_def)

section \<open>Certificates and CRLs: encoding and signing\<close>

lemma asn1Version_foldl: "asn1Version (foldl tbs_apply t cs) = asn1Version t"
proof (induction cs arbitrary: t)
  case Nil
  then show ?case by simp
next
  case (Cons c cs)
  have "asn1Version (tbs_apply t c) = asn1Version t" by (cases c) simp_all
  then show ?case using Cons by simp
qed

lemma asn1Version_tbs_calls:
  "asn1Version (tbs_calls cs) = DERTaggedObject None None (DERInteger 2)"
  by (simp add: tbs_calls_def asn1Version_foldl TBSCertificate_new_def)

text \<open>
  Claim C4, as the code has it: for every TBSCertificate built by the constructor and the
  setters, with \<^verbatim>\<open>notBefore\<close> and \<^verbatim>\<open>notAfter\<close> set, \<^verbatim>\<open>getEncodedHex\<close> always puts the
  version field first, the tagged object with the default tag and the integer 2 (v3),
  whether or not there are extensions; the extension list, when it is not empty, is wrapped
  in an explicit tag \<open>a3\<close> and comes last, and when it is empty there is no such element.
  The result is the encoding of the sequence of these fields.
\<close>

theorem TBSCertificate_version_always_encoded:
  assumes t: "t = tbs_calls cs"
      and nb: "asn1NotBefore t \<noteq> Null"
      and na: "asn1NotAfter t \<noteq> Null"
  shows "asn1Array (snd (TBSCertificate_getEncodedHex K t))
         = [DERTaggedObject None None (DERInteger 2),
            asn1SerialNumber t,
            algId_obj (asn1SignatureAlg t),
            asn1Issuer t,
            DERSequence [asn1NotBefore t, asn1NotAfter t],
            asn1Subject t,
            asn1SubjPKey t]
           @ (if extensionsArray t = [] then []
              else [DERTaggedObject (Some True) (Some ''a3'') (DERSequence (extensionsArray t))])
         \<and> fst (TBSCertificate_getEncodedHex K t)
           = asn1_getEncodedHex K (DERSequence (asn1Array (snd (TBSCertificate_getEncodedHex K t))))"
proof -
  have v: "asn1Version t = DERTaggedObject None None (DERInteger 2)"
    unfolding t by (rule asn1Version_tbs_calls)
  show ?thesis
    using nb na
    unfolding TBSCertificate_getEncodedHex_def Let_def
    by (cases "asn1_getEncodedHex K (DERSequence (TBSCertificate_fields t))")
       (simp_all add: TBSCertificate_fields_def v)
qed


theorem TBSCertificate_version_witness:
  "fst (TBSCertificate_getEncodedHex example_kernel (example_tbs [Other (Inr ''EXT(basicConstraints)'')]))
   = Inr ''SEQ([a0](INT(2)),INT(4),ALG(SHA256withRSA),NAME(issuer),SEQ(TIME(notBefore),TIME(notAfter)),NAME(subject),SPKI,[a3](SEQ(EXT(basicConstraints))))''"
proof -
  let ?t = "example_tbs [Other (Inr ''EXT(basicConstraints)'')]"
  have 1: "?t = tbs_calls ([setSerialNumberByParam (DERInteger 4),
         setSignatureAlgByParam (example_algId ''SHA256withRSA''),
         setIssuerByParam (Other (Inr ''NAME(issuer)'')),
         setNotBeforeByParam (Other (Inr ''TIME(notBefore)'')),
         setNotAfterByParam (Other (Inr ''TIME(notAfter)'')),
         setSubjectByParam (Other (Inr ''NAME(subject)'')),
         setSubjectPublicKey (Other (Inr ''SPKI''))]
        @ map appendExtension [Other (Inr ''EXT(basicConstraints)'')])"
    by (simp add: example_tbs_def)
  have f: "asn1NotBefore ?t = Other (Inr ''TIME(notBefore)'')"
          "asn1NotAfter ?t = Other (Inr ''TIME(notAfter)'')"
          "asn1SerialNumber ?t = DERInteger 4"
          "asn1SignatureAlg ?t = Some (example_algId ''SHA256withRSA'')"
          "asn1Issuer ?t = Other (Inr ''NAME(issuer)'')"
          "asn1Subject ?t = Other (Inr ''NAME(subject)'')"
          "asn1SubjPKey ?t = Other (Inr ''SPKI'')"
          "extensionsArray ?t = [Other (Inr ''EXT(basicConstraints)'')]"
    by (simp_all add: example_tbs_def tbs_calls_def TBSCertificate_new_def)
  have 2: "asn1NotBefore ?t \<noteq> Null" by (simp add: f)
  have 3: "asn1NotAfter ?t \<noteq> Null" by (simp add: f)
  note t = TBSCertificate_version_always_encoded [OF 1 2 3, of example_kernel]
  have a: "asn1Array (snd (TBSCertificate_getEncodedHex example_kernel ?t))
           = [DERTaggedObject None None (DERInteger 2), DERInteger 4,
              AlgId (example_algId ''SHA256withRSA''), Other (Inr ''NAME(issuer)''),
              DERSequence [Other (Inr ''TIME(notBefore)''), Other (Inr ''TIME(notAfter)'')],
              Other (Inr ''NAME(subject)''), Other (Inr ''SPKI''),
              DERTaggedObject (Some True) (Some ''a3'')
                (DERSequence [Other (Inr ''EXT(basicConstraints)'')])]"
    using t by (simp add: f algId_obj_def)
  have b: "fst (TBSCertificate_getEncodedHex example_kernel ?t)
           = asn1_getEncodedHex example_kernel
               (DERSequence (asn1Array (snd (TBSCertificate_getEncodedHex example_kernel ?t))))"
    using t by (rule conjunct2)
  show ?thesis
    unfolding b a
    by (simp add: example_algId_def example_kernel_def int_to_dec_def digit_char_def)
qed

text \<open>
  The claim C4 said that the version field is left out when there is no extension. With an
  empty extension list the version field is still the first element of the sequence.
\<close>

theorem TBSCertificate_version_counterexample:
  "extensionsArray (example_tbs []) = [] \<and>
   hd (asn1Array (snd (TBSCertificate_getEncodedHex example_kernel (example_tbs []))))
     = DERTaggedObject None None (DERInteger 2) \<and>
   fst (TBSCertificate_getEncodedHex example_kernel (example_tbs []))
     = Inr ''SEQ([a0](INT(2)),INT(4),ALG(SHA256withRSA),NAME(issuer),SEQ(TIME(notBefore),TIME(notAfter)),NAME(subject),SPKI)''"
  by (simp add: example_tbs_def tbs_calls_def TBSCertificate_new_def TBSCertificate_getEncodedHex_def
        TBSCertificate_fields_def algId_obj_def example_algId_def example_kernel_def int_to_dec_def
        digit_char_def Let_def)


lemma Certificate_assemble_Inl:
  "Certificate_assemble K c = (Inl e, c') \<Longrightarrow> hTLV c' = hTLV c \<and> isModified c' = isModified c"
  unfolding Certificate_assemble_def
  by (auto split: option.splits prod.splits sum.splits)

lemma Certificate_assemble_Inr:
  "Certificate_assemble K c = (Inr u, c') \<Longrightarrow>
   (\<exists>h. hTLV c' = Some h) \<and> isModified c' = False \<and> asn1TBSCert c' \<noteq> None"
  unfolding Certificate_assemble_def
  by (auto split: option.splits prod.splits sum.splits)

lemma Certificate_sign_Inl:
  "Certificate_sign K E c = (Inl e, c') \<Longrightarrow> hTLV c' = hTLV c \<and> isModified c' = isModified c"
  unfolding Certificate_sign_def Let_def
  by (auto split: option.splits prod.splits sum.splits if_splits dest!: Certificate_assemble_Inl)

lemma Certificate_sign_Inr:
  "Certificate_sign K E c = (Inr u, c') \<Longrightarrow>
   (\<exists>h. hTLV c' = Some h) \<and> isModified c' = False \<and> asn1TBSCert c' \<noteq> None"
  unfolding Certificate_sign_def Let_def
  by (auto split: option.splits prod.splits sum.splits if_splits dest!: Certificate_assemble_Inr)

lemma Certificate_setSignatureHex_Inl:
  "Certificate_setSignatureHex K sigHex c = (Inl e, c') \<Longrightarrow>
   hTLV c' = hTLV c \<and> isModified c' = isModified c"
  unfolding Certificate_setSignatureHex_def
  by (auto split: option.splits dest!: Certificate_assemble_Inl)

lemma Certificate_call_unsigned:
  assumes "hTLV c = None" and "fst (Certificate_call K E x c) \<noteq> Returned"
  shows "hTLV (snd (Certificate_call K E x c)) = None"
proof (cases x)
  case Call_sign
  obtain r c' where r: "Certificate_sign K E c = (r, c')" by (cases "Certificate_sign K E c")
  show ?thesis
  proof (cases r)
    case (Inl e)
    then show ?thesis using Certificate_sign_Inl[of K E c e c'] r assms Call_sign by simp
  next
    case (Inr u)
    then show ?thesis using r assms Call_sign by simp
  qed
next
  case (Call_setSignatureHex h)
  obtain r c' where r: "Certificate_setSignatureHex K h c = (r, c')"
    by (cases "Certificate_setSignatureHex K h c")
  show ?thesis
  proof (cases r)
    case (Inl e)
    then show ?thesis
      using Certificate_setSignatureHex_Inl[of K h c e c'] r assms Call_setSignatureHex by simp
  next
    case (Inr u)
    then show ?thesis using r assms Call_setSignatureHex by simp
  qed
next
  case Call_getEncodedHex
  then show ?thesis
    using assms by (simp add: Certificate_getEncodedHex_def)
next
  case (Call_tbs s)
  then show ?thesis
    using assms by (cases "asn1TBSCert c") simp_all
qed

lemma Certificate_after_unsigned:
  assumes "hTLV c = None" and "Returned \<notin> set (Certificate_run K E calls c)"
  shows "hTLV (Certificate_after K E calls c) = None"
  using assms
proof (induction calls arbitrary: c)
  case Nil
  then show ?case by simp
next
  case (Cons x xs)
  obtain r c' where r: "Certificate_call K E x c = (r, c')" by (cases "Certificate_call K E x c")
  with Cons.prems have "r \<noteq> Returned" "Returned \<notin> set (Certificate_run K E xs c')" by auto
  moreover have "hTLV c' = None"
    using Certificate_call_unsigned[of c K E x] Cons.prems(1) r \<open>r \<noteq> Returned\<close> by simp
  ultimately show ?case using Cons.IH[of c'] r by simp
qed

text \<open>
  Once an encoding is stored, a call that is not a signing call returns or hands out that
  encoding and leaves it, and the flag, as they are: a setter of the TBSCertificate assigns
  one field of that object and nothing else.
\<close>

lemma Certificate_call_signed:
  assumes "hTLV c = Some h" and "isModified c = False" and "asn1TBSCert c \<noteq> None"
      and "\<not> is_signing_call x"
  shows "fst (Certificate_call K E x c)
           = (if x = Call_getEncodedHex then ReturnedHex h else ReturnedSetter) \<and>
         hTLV (snd (Certificate_call K E x c)) = Some h \<and>
         isModified (snd (Certificate_call K E x c)) = False \<and>
         asn1TBSCert (snd (Certificate_call K E x c)) \<noteq> None"
proof (cases x)
  case Call_getEncodedHex
  then show ?thesis using assms by (simp add: Certificate_getEncodedHex_def)
next
  case (Call_tbs s)
  then show ?thesis using assms by (cases "asn1TBSCert c") simp_all
qed (use assms in simp_all)

lemma Certificate_run_signed:
  assumes "hTLV c = Some h" and "isModified c = False" and "asn1TBSCert c \<noteq> None"
      and "\<forall>x \<in> set calls. \<not> is_signing_call x"
  shows "Certificate_run K E calls c
         = map (\<lambda>x. if x = Call_getEncodedHex then ReturnedHex h else ReturnedSetter) calls"
  using assms
proof (induction calls arbitrary: c)
  case Nil
  then show ?case by simp
next
  case (Cons x xs)
  obtain r c' where r: "Certificate_call K E x c = (r, c')" by (cases "Certificate_call K E x c")
  have nx: "\<not> is_signing_call x" using Cons.prems(4) by simp
  from Certificate_call_signed[OF Cons.prems(1) Cons.prems(2) Cons.prems(3) nx, of K E] r
  have c': "r = (if x = Call_getEncodedHex then ReturnedHex h else ReturnedSetter)"
           "hTLV c' = Some h" "isModified c' = False" "asn1TBSCert c' \<noteq> None"
    by simp_all
  have "Certificate_run K E xs c'
        = map (\<lambda>x. if x = Call_getEncodedHex then ReturnedHex h else ReturnedSetter) xs"
    using Cons.IH[OF c'(2) c'(3) c'(4)] Cons.prems(4) by simp
  then show ?case using r c'(1) by simp
qed

text \<open>
  Claim C6, as the code has it: on a Certificate object on which no call of \<^verbatim>\<open>sign\<close> or
  \<^verbatim>\<open>setSignatureHex\<close> has completed (every such call so far has thrown, whatever setters
  were called in between), \<^verbatim>\<open>getEncodedHex\<close> throws "not signed yet". After a call of
  \<^verbatim>\<open>sign\<close> that completes, every later call of \<^verbatim>\<open>getEncodedHex\<close> returns one and the same
  hex string, the one \<^verbatim>\<open>sign\<close> stored, for as long as no further \<^verbatim>\<open>sign\<close> or
  \<^verbatim>\<open>setSignatureHex\<close> is called: also after fields have been changed through the setters of
  the TBSCertificate, since nothing sets the flag \<^verbatim>\<open>isModified\<close> again.
\<close>

theorem Certificate_getEncodedHex_unsigned_and_memoised:
  "(Returned \<notin> set (Certificate_run K E calls (Certificate_new tbs k)) \<longrightarrow>
      fst (Certificate_getEncodedHex (Certificate_after K E calls (Certificate_new tbs k)))
        = Inl (Throw ''not signed yet'')) \<and>
   (fst (Certificate_sign K E c) = Inr () \<longrightarrow>
      (\<exists>h. hTLV (snd (Certificate_sign K E c)) = Some h \<and>
           (\<forall>later. (\<forall>x \<in> set later. \<not> is_signing_call x) \<longrightarrow>
              Certificate_run K E later (snd (Certificate_sign K E c))
              = map (\<lambda>x. if x = Call_getEncodedHex then ReturnedHex h else ReturnedSetter) later)))"
proof (intro conjI impI)
  assume "Returned \<notin> set (Certificate_run K E calls (Certificate_new tbs k))"
  then have "hTLV (Certificate_after K E calls (Certificate_new tbs k)) = None"
    by (intro Certificate_after_unsigned) (simp_all add: Certificate_new_def)
  then show "fst (Certificate_getEncodedHex (Certificate_after K E calls (Certificate_new tbs k)))
        = Inl (Throw ''not signed yet'')"
    by (simp add: Certificate_getEncodedHex_def)
next
  assume "fst (Certificate_sign K E c) = Inr ()"
  then have "Certificate_sign K E c = (Inr (), snd (Certificate_sign K E c))"
    by (metis prod.collapse)
  from Certificate_sign_Inr[OF this]
  obtain h where h: "hTLV (snd (Certificate_sign K E c)) = Some h"
                    "isModified (snd (Certificate_sign K E c)) = False"
                    "asn1TBSCert (snd (Certificate_sign K E c)) \<noteq> None"
    by auto
  have "\<forall>later. (\<forall>x \<in> set later. \<not> is_signing_call x) \<longrightarrow>
              Certificate_run K E later (snd (Certificate_sign K E c))
              = map (\<lambda>x. if x = Call_getEncodedHex then ReturnedHex h else ReturnedSetter) later"
    using Certificate_run_signed[OF h] by blast
  with h(1) show "\<exists>h. hTLV (snd (Certificate_sign K E c)) = Some h \<and>
           (\<forall>later. (\<forall>x \<in> set later. \<not> is_signing_call x) \<longrightarrow>
              Certificate_run K E later (snd (Certificate_sign K E c))
              = map (\<lambda>x. if x = Call_getEncodedHex then ReturnedHex h else ReturnedSetter) later)"
    by blast
qed

lemmas example_asn1_simps =
  example_tbs_def tbs_calls_def TBSCertificate_new_def TBSCertificate_getEncodedHex_def
  TBSCertificate_fields_def algId_obj_def example_algId_def example_kernel_def int_to_dec_def
  digit_char_def example_sig_env_def Let_def

lemma example_certificate_signed:
  "fst (Certificate_sign example_kernel (example_sig_env True)
          (Certificate_new (Some (example_tbs [])) (Some (KRSAKeyEx ''ca key'')))) = Inr () \<and>
   hTLV (snd (Certificate_sign example_kernel (example_sig_env True)
          (Certificate_new (Some (example_tbs [])) (Some (KRSAKeyEx ''ca key'')))))
   = Some ''SEQ(SEQ([a0](INT(2)),INT(4),ALG(SHA256withRSA),NAME(issuer),SEQ(TIME(notBefore),TIME(notAfter)),NAME(subject),SPKI),ALG(SHA256withRSA),BITSTRING(00SHA256withRSA))'' \<and>
   isModified (snd (Certificate_sign example_kernel (example_sig_env True)
          (Certificate_new (Some (example_tbs [])) (Some (KRSAKeyEx ''ca key''))))) = False \<and>
   hexSig (snd (Certificate_sign example_kernel (example_sig_env True)
          (Certificate_new (Some (example_tbs [])) (Some (KRSAKeyEx ''ca key'')))))
   = Some ''SHA256withRSA'' \<and>
   map_option asn1SerialNumber
     (asn1TBSCert (snd (Certificate_sign example_kernel (example_sig_env True)
          (Certificate_new (Some (example_tbs [])) (Some (KRSAKeyEx ''ca key''))))))
   = Some (DERInteger 4)"
  by (simp add: Certificate_sign_def Certificate_new_def Certificate_assemble_def example_asn1_simps)

text \<open>
  Two runs. On a certificate without a TBS object \<^verbatim>\<open>sign\<close> throws, and \<^verbatim>\<open>getEncodedHex\<close>
  throws "not signed yet" afterwards. On the example certificate \<^verbatim>\<open>sign\<close> completes; an
  extension is then appended to its TBSCertificate, and \<^verbatim>\<open>getEncodedHex\<close> returns the same
  string before and after that.
\<close>

theorem Certificate_getEncodedHex_witness:
  "fst (Certificate_getEncodedHex
          (Certificate_after example_kernel (example_sig_env True) [Call_sign, Call_getEncodedHex]
             (Certificate_new None None))) = Inl (Throw ''not signed yet'') \<and>
   Certificate_run example_kernel (example_sig_env True)
     [Call_getEncodedHex, Call_tbs (appendExtension (Other (Inr ''EXT''))), Call_getEncodedHex]
     (snd (Certificate_sign example_kernel (example_sig_env True)
             (Certificate_new (Some (example_tbs [])) (Some (KRSAKeyEx ''ca key'')))))
   = [ReturnedHex ''SEQ(SEQ([a0](INT(2)),INT(4),ALG(SHA256withRSA),NAME(issuer),SEQ(TIME(notBefore),TIME(notAfter)),NAME(subject),SPKI),ALG(SHA256withRSA),BITSTRING(00SHA256withRSA))'',
      ReturnedSetter,
      ReturnedHex ''SEQ(SEQ([a0](INT(2)),INT(4),ALG(SHA256withRSA),NAME(issuer),SEQ(TIME(notBefore),TIME(notAfter)),NAME(subject),SPKI),ALG(SHA256withRSA),BITSTRING(00SHA256withRSA))'']"
proof -
  let ?K = example_kernel
  let ?E = "example_sig_env True"
  let ?c = "Certificate_new (Some (example_tbs [])) (Some (KRSAKeyEx ''ca key''))"
  let ?later = "[Call_getEncodedHex, Call_tbs (appendExtension (Other (Inr ''EXT''))),
                 Call_getEncodedHex]"
  note t = Certificate_getEncodedHex_unsigned_and_memoised
             [of ?K ?E "[Call_sign, Call_getEncodedHex]" None None ?c]
  have 1: "Returned \<notin> set (Certificate_run ?K ?E [Call_sign, Call_getEncodedHex]
                              (Certificate_new None None))"
    by (simp add: Certificate_sign_def Certificate_new_def Certificate_getEncodedHex_def)
  have a: "fst (Certificate_getEncodedHex
                 (Certificate_after ?K ?E [Call_sign, Call_getEncodedHex] (Certificate_new None None)))
           = Inl (Throw ''not signed yet'')"
    using t 1 by blast
  have 2: "fst (Certificate_sign ?K ?E ?c) = Inr ()"
    using example_certificate_signed by blast
  have 3: "\<forall>x \<in> set ?later. \<not> is_signing_call x" by simp
  from t 2 obtain h where
    h: "hTLV (snd (Certificate_sign ?K ?E ?c)) = Some h"
       "\<forall>later. (\<forall>x \<in> set later. \<not> is_signing_call x) \<longrightarrow>
              Certificate_run ?K ?E later (snd (Certificate_sign ?K ?E ?c))
              = map (\<lambda>x. if x = Call_getEncodedHex then ReturnedHex h else ReturnedSetter) later"
    by blast
  from h(1) have hh: "h = ''SEQ(SEQ([a0](INT(2)),INT(4),ALG(SHA256withRSA),NAME(issuer),SEQ(TIME(notBefore),TIME(notAfter)),NAME(subject),SPKI),ALG(SHA256withRSA),BITSTRING(00SHA256withRSA))''"
    using example_certificate_signed by simp
  from h(2) 3 have "Certificate_run ?K ?E ?later (snd (Certificate_sign ?K ?E ?c))
        = map (\<lambda>x. if x = Call_getEncodedHex then ReturnedHex h else ReturnedSetter) ?later"
    by blast
  then have b: "Certificate_run ?K ?E ?later (snd (Certificate_sign ?K ?E ?c))
        = [ReturnedHex h, ReturnedSetter, ReturnedHex h]"
    by simp
  show ?thesis using a b unfolding hh by blast
qed

text \<open>
  The claim C6 said that the same string is returned until a field is mutated. The example
  certificate is signed with the serial number 4; the serial number of its TBSCertificate
  is then set to 5. The flag \<^verbatim>\<open>isModified\<close> stays \<^verbatim>\<open>false\<close>, and \<^verbatim>\<open>getEncodedHex\<close> still
  returns the string with the serial number 4, which is no longer the encoding of the
  fields: the TBSCertificate now encodes with the serial number 5.
\<close>

theorem Certificate_getEncodedHex_after_mutation_counterexample:
  "Certificate_run example_kernel (example_sig_env True)
     [Call_sign, Call_getEncodedHex, Call_tbs (setSerialNumberByParam (DERInteger 5)),
      Call_getEncodedHex]
     (Certificate_new (Some (example_tbs [])) (Some (KRSAKeyEx ''ca key'')))
   = [Returned,
      ReturnedHex ''SEQ(SEQ([a0](INT(2)),INT(4),ALG(SHA256withRSA),NAME(issuer),SEQ(TIME(notBefore),TIME(notAfter)),NAME(subject),SPKI),ALG(SHA256withRSA),BITSTRING(00SHA256withRSA))'',
      ReturnedSetter,
      ReturnedHex ''SEQ(SEQ([a0](INT(2)),INT(4),ALG(SHA256withRSA),NAME(issuer),SEQ(TIME(notBefore),TIME(notAfter)),NAME(subject),SPKI),ALG(SHA256withRSA),BITSTRING(00SHA256withRSA))''] \<and>
   isModified (Certificate_after example_kernel (example_sig_env True)
     [Call_sign, Call_getEncodedHex, Call_tbs (setSerialNumberByParam (DERInteger 5))]
     (Certificate_new (Some (example_tbs [])) (Some (KRSAKeyEx ''ca key'')))) = False \<and>
   map_option (\<lambda>t. fst (TBSCertificate_getEncodedHex example_kernel t))
     (asn1TBSCert (Certificate_after example_kernel (example_sig_env True)
        [Call_sign, Call_getEncodedHex, Call_tbs (setSerialNumberByParam (DERInteger 5))]
        (Certificate_new (Some (example_tbs [])) (Some (KRSAKeyEx ''ca key'')))))
   = Some (Inr ''SEQ([a0](INT(2)),INT(5),ALG(SHA256withRSA),NAME(issuer),SEQ(TIME(notBefore),TIME(notAfter)),NAME(subject),SPKI)'')"
  by (simp add: Certificate_sign_def Certificate_new_def Certificate_assemble_def
        Certificate_getEncodedHex_def example_asn1_simps)


lemma TBSCertificate_getEncodedHex_again:
  "fst (TBSCertificate_getEncodedHex K (snd (TBSCertificate_getEncodedHex K t)))
   = fst (TBSCertificate_getEncodedHex K t)"
  unfolding TBSCertificate_getEncodedHex_def Let_def
  by (simp add: TBSCertificate_fields_def split: sum.splits)

lemma Certificate_assemble_fields:
  "Certificate_assemble K d = (r, c') \<Longrightarrow>
   hexSig c' = hexSig d \<and> asn1Sig c' = asn1Sig d \<and> asn1SignatureAlg_c c' = asn1SignatureAlg_c d"
  unfolding Certificate_assemble_def
  by (auto split: option.splits prod.splits sum.splits)

lemma Certificate_assemble_hTLV:
  assumes "Certificate_assemble K d = (Inr u, c')"
  shows "\<exists>tbs h1 h2 h3. asn1TBSCert d = Some tbs \<and>
           fst (TBSCertificate_getEncodedHex K tbs) = Inr h1 \<and>
           asn1_getEncodedHex K (algId_obj (asn1SignatureAlg_c d)) = Inr h2 \<and>
           asn1_getEncodedHex K (asn1Sig d) = Inr h3 \<and>
           hTLV c' = Some (DERSequence_hex K [h1, h2, h3])"
  using assms unfolding Certificate_assemble_def
  by (auto split: option.splits prod.splits sum.splits)

text \<open>
  What \<^verbatim>\<open>Certificate.sign\<close> does when it completes: the algorithm identifier is the one
  of the TBS object, the signature is computed over the encoding of the TBS object with the
  algorithm that identifier names, and the outer sequence holds the TBS encoding, the
  identifier and the bit string of \<open>00\<close> followed by the signature.
\<close>

lemma Certificate_sign_declared_algorithm:
  assumes "Certificate_sign K E c = (Inr u, c')"
  shows "\<exists>tbs alg hTBS h hAlg hSig.
           asn1TBSCert c = Some tbs \<and> asn1SignatureAlg tbs = Some alg \<and>
           fst (TBSCertificate_getEncodedHex K tbs) = Inr hTBS \<and>
           Signature_sign E (nameAlg alg) (prvKey c) hTBS = Inr h \<and>
           asn1SignatureAlg_c c' = Some alg \<and> hexSig c' = Some h \<and>
           asn1Sig c' = DERBitString (''00'' @ h) \<and>
           algHex alg = Inr hAlg \<and>
           DERBitString_hex K (''00'' @ h) = Inr hSig \<and>
           hTLV c' = Some (DERSequence_hex K [hTBS, hAlg, hSig]) \<and>
           isModified c' = False"
proof -
  from assms obtain tbs alg hTBS tbs' h where
    t: "asn1TBSCert c = Some tbs" and a: "asn1SignatureAlg tbs = Some alg" and
    e: "TBSCertificate_getEncodedHex K tbs = (Inr hTBS, tbs')" and
    s: "Signature_sign E (nameAlg alg) (prvKey c) hTBS = Inr h" and
    f: "Certificate_assemble K
          (c\<lparr>asn1SignatureAlg_c := Some alg, asn1TBSCert := Some tbs', hexSig := Some h,
              asn1Sig := DERBitString (''00'' @ h)\<rparr>) = (Inr u, c')"
    unfolding Certificate_sign_def Let_def
    by (auto split: option.splits prod.splits sum.splits if_splits)
  let ?d = "c\<lparr>asn1SignatureAlg_c := Some alg, asn1TBSCert := Some tbs', hexSig := Some h,
              asn1Sig := DERBitString (''00'' @ h)\<rparr>"
  have tbs': "tbs' = snd (TBSCertificate_getEncodedHex K tbs)" using e by simp
  from Certificate_assemble_hTLV[OF f] obtain h1 h2 h3 where
    h: "fst (TBSCertificate_getEncodedHex K tbs') = Inr h1"
       "asn1_getEncodedHex K (algId_obj (Some alg)) = Inr h2"
       "asn1_getEncodedHex K (DERBitString (''00'' @ h)) = Inr h3"
       "hTLV c' = Some (DERSequence_hex K [h1, h2, h3])"
    by auto
  have "fst (TBSCertificate_getEncodedHex K tbs) = Inr hTBS" using e by simp
  moreover have "fst (TBSCertificate_getEncodedHex K tbs) = Inr h1"
    using h(1) TBSCertificate_getEncodedHex_again[of K tbs] unfolding tbs' by simp
  ultimately have h1: "h1 = hTBS" by simp
  have h2: "algHex alg = Inr h2" using h(2) by (simp add: algId_obj_def)
  have h3: "DERBitString_hex K (''00'' @ h) = Inr h3" using h(3) by simp
  from Certificate_assemble_fields[OF f] Certificate_assemble_Inr[OF f]
  have "asn1SignatureAlg_c c' = Some alg" "hexSig c' = Some h"
       "asn1Sig c' = DERBitString (''00'' @ h)" "isModified c' = False"
    by simp_all
  with t a e s h(4) h1 h2 h3 show ?thesis by auto
qed

lemma CRL_assemble_fields:
  "CRL_assemble K d = (r, c') \<Longrightarrow>
   hexSig_r c' = hexSig_r d \<and> asn1Sig_r c' = asn1Sig_r d \<and>
   asn1SignatureAlg_r c' = asn1SignatureAlg_r d"
  unfolding CRL_assemble_def
  by (auto split: option.splits prod.splits sum.splits)

text \<open>
  What \<^verbatim>\<open>CRL.sign\<close> does when it completes: it needs a global \<^verbatim>\<open>sig\<close>, and the signature
  is computed with \<open>SHA1withRSA\<close> whatever the TBS object declares.
\<close>

lemma CRL_sign_fixed_algorithm:
  assumes "CRL_sign K E c = (Inr u, c')"
  shows "\<exists>tbs hTBS h.
           global_sig E \<and> asn1TBSCertList c = Some tbs \<and>
           fst (TBSCertList_getEncodedHex K tbs) = Inr hTBS \<and>
           Signature_sign E (Some ''SHA1withRSA'') (prvKey_r c) hTBS = Inr h \<and>
           asn1SignatureAlg_r c' = asn1SignatureAlg_l tbs \<and> hexSig_r c' = Some h \<and>
           asn1Sig_r c' = DERBitString (''00'' @ h)"
proof -
  from assms obtain tbs hTBS tbs' h where
    t: "asn1TBSCertList c = Some tbs" and g: "global_sig E" and
    e: "TBSCertList_getEncodedHex K tbs = (Inr hTBS, tbs')" and
    s: "Signature_sign E (Some ''SHA1withRSA'') (prvKey_r c) hTBS = Inr h" and
    f: "CRL_assemble K
          (c\<lparr>asn1SignatureAlg_r := asn1SignatureAlg_l tbs, asn1TBSCertList := Some tbs',
              hexSig_r := Some h, asn1Sig_r := DERBitString (''00'' @ h)\<rparr>) = (Inr u, c')"
    unfolding CRL_sign_def Let_def
    by (auto split: option.splits prod.splits sum.splits if_splits)
  from CRL_assemble_fields[OF f] t g e s show ?thesis by auto
qed

text \<open>
  Claim C3 says that \<^verbatim>\<open>sign\<close> of a Certificate and of a CRL computes the signature with
  the algorithm declared in the TBS object. For a TBSCertList that declares
  \<open>SHA256withRSA\<close>, \<^verbatim>\<open>CRL.sign\<close> throws a ReferenceError when no global \<^verbatim>\<open>sig\<close> exists,
  and otherwise signs with \<open>SHA1withRSA\<close> while the outer sequence still declares
  \<open>SHA256withRSA\<close>. \<^verbatim>\<open>Certificate.sign\<close> on a TBSCertificate that declares
  \<open>SHA256withRSA\<close> signs with \<open>SHA256withRSA\<close>. (The example engine returns the
  algorithm name as the signature.)
\<close>

theorem CRL_sign_ignores_declared_algorithm:
  "map_option nameAlg (asn1SignatureAlg_l example_tbslist) = Some (Some ''SHA256withRSA'') \<and>
   fst (CRL_sign example_kernel (example_sig_env False)
          (CRL_new (Some example_tbslist) (Some (KRSAKeyEx ''ca key'')))) = Inl ReferenceError \<and>
   fst (CRL_sign example_kernel (example_sig_env True)
          (CRL_new (Some example_tbslist) (Some (KRSAKeyEx ''ca key'')))) = Inr () \<and>
   hexSig_r (snd (CRL_sign example_kernel (example_sig_env True)
          (CRL_new (Some example_tbslist) (Some (KRSAKeyEx ''ca key''))))) = Some ''SHA1withRSA'' \<and>
   hTLV (snd (CRL_sign example_kernel (example_sig_env True)
          (CRL_new (Some example_tbslist) (Some (KRSAKeyEx ''ca key'')))))
     = Some ''SEQ(SEQ(ALG(SHA256withRSA),NAME(issuer),TIME(thisUpdate)),ALG(SHA256withRSA),BITSTRING(00SHA1withRSA))'' \<and>
   map_option nameAlg (asn1SignatureAlg (example_tbs [])) = Some (Some ''SHA256withRSA'') \<and>
   hexSig (snd (Certificate_sign example_kernel (example_sig_env True)
          (Certificate_new (Some (example_tbs [])) (Some (KRSAKeyEx ''ca key''))))) = Some ''SHA256withRSA''"
  by (simp add: CRL_sign_def CRL_new_def CRL_assemble_def example_tbslist_def TBSCertList_new_def
        TBSCertList_getEncodedHex_def TBSCertList_fields_def
        Certificate_sign_def Certificate_new_def Certificate_assemble_def example_asn1_simps)

end
